theory Spec2Isabelle
  imports Complex_Main "HOL-Library.Word"
begin

section \<open>Data model of the telemetry module (flight/modules/Telemetry/telemetry.c)\<close>

text \<open>
  Object handles are pointers; \<open>0\<close> is the null handle, which a dispatch event uses as
  the sentinel "update the telemetry statistics now". Queue handles and UAVTalk
  connections are opaque handles as well.
\<close>

type_synonym UAVObjHandle = nat
type_synonym xQueueHandle = nat
type_synonym UAVTalkConnection = nat
type_synonym uint16 = "16 word"
type_synonym uint32 = "32 word"

text \<open>
  The event codes that telemetry.c names. The enumeration itself is declared in
  uavobjectmanager.h; \<open>EV_OTHER\<close> stands for every code the file does not name. An
  event mask (the bitwise or of event codes) is the set of its codes.
\<close>

datatype UAVObjEventType =
    EV_NONE
  | EV_UPDATED
  | EV_UPDATED_MANUAL
  | EV_UPDATED_PERIODIC
  | EV_LOGGING_MANUAL
  | EV_LOGGING_PERIODIC
  | EV_UPDATE_REQ
  | EV_OTHER

datatype UAVObjUpdateMode =
    UPDATEMODE_MANUAL
  | UPDATEMODE_PERIODIC
  | UPDATEMODE_ONCHANGE
  | UPDATEMODE_THROTTLED

text \<open>
  The metadata of an object, as telemetry.c reads it: the two update modes and the
  acknowledge flag through their accessors (UAVObjGetTelemetryUpdateMode,
  UAVObjGetLoggingUpdateMode, UAVObjGetTelemetryAcked), the two periods as fields.
\<close>

record UAVObjMetadata =
  telemetryUpdateMode :: UAVObjUpdateMode
  loggingUpdateMode :: UAVObjUpdateMode
  telemetryAcked :: bool
  telemetryUpdatePeriod :: nat
  loggingUpdatePeriod :: nat

record UAVObjEvent =
  obj :: UAVObjHandle
  instId :: uint16
  event :: UAVObjEventType
  lowPriority :: bool

text \<open>
  Modelled from the spec: the wildcard instance id "all instances"
  (UAVOBJ_ALL_INSTANCES of uavobjectmanager.h, which is not among the sources).
\<close>

definition UAVOBJ_ALL_INSTANCES :: uint16 where
  "UAVOBJ_ALL_INSTANCES = 0xFFFF"

record telemetryContext =
  telemetryPort :: uint32
  mainQueue :: xQueueHandle
  priorityQueue :: xQueueHandle
  uavTalkCon :: UAVTalkConnection

definition REQ_TIMEOUT_MS :: nat where
  "REQ_TIMEOUT_MS = 250"

definition MAX_RETRIES :: nat where
  "MAX_RETRIES = 2"

definition STATS_UPDATE_PERIOD_MS :: nat where
  "STATS_UPDATE_PERIOD_MS = 4000"

definition CONNECTION_TIMEOUT_MS :: uint32 where
  "CONNECTION_TIMEOUT_MS = 8000"

datatype FlightTelemetryStatsStatus =
    FLIGHTTELEMETRYSTATS_STATUS_DISCONNECTED
  | FLIGHTTELEMETRYSTATS_STATUS_HANDSHAKEREQ
  | FLIGHTTELEMETRYSTATS_STATUS_HANDSHAKEACK
  | FLIGHTTELEMETRYSTATS_STATUS_CONNECTED

datatype GCSTelemetryStatsStatus =
    GCSTELEMETRYSTATS_STATUS_DISCONNECTED
  | GCSTELEMETRYSTATS_STATUS_HANDSHAKEREQ
  | GCSTELEMETRYSTATS_STATUS_HANDSHAKEACK
  | GCSTELEMETRYSTATS_STATUS_CONNECTED

text \<open>
  The two data rates are single-precision floats in the source; they are reals here
  (the rounding of the conversion is not modelled, a rate is zero in the model exactly
  when it is zero in the source).
\<close>

record FlightTelemetryStatsData =
  Status :: FlightTelemetryStatsStatus
  TxDataRate :: real
  TxBytes :: uint32
  TxFailures :: uint32
  TxRetries :: uint32
  RxDataRate :: real
  RxBytes :: uint32
  RxFailures :: uint32
  RxSyncErrors :: uint32
  RxCrcErrors :: uint32

record GCSTelemetryStatsData =
  GCSStatus :: GCSTelemetryStatsStatus

record UAVTalkStats =
  txBytes :: uint32
  rxBytes :: uint32
  rxObjects :: uint32
  rxErrors :: uint32
  rxSyncErrors :: uint32
  rxCrcErrors :: uint32

text \<open>The calls to the collaborators that leave a trace, in program order.\<close>

datatype call =
    SendObject UAVTalkConnection UAVObjHandle uint16 bool nat
  | SendObjectRequest UAVTalkConnection UAVObjHandle uint16 nat
  | InstanceWriteToLog UAVObjHandle uint16
  | StatsUpdated
  | AlarmsClear

text \<open>
  What the module reads but does not own: the build configuration, the object
  registry, the two channel contexts (the static variables \<open>telemHandle\<close> and
  \<open>radioHandle\<close>, as TelemetryInitialize sets them up), the outcome of the k-th
  UAVTalk send or request (\<open>-1\<close> is failure), the tick length, and the indeterminate
  content of processObjEvent's local \<open>metadata\<close> before it is assigned.
\<close>

record env =
  PIOS_TELEM_PRIORITY_QUEUE :: bool
  UAVObjIsMetaobject :: "UAVObjHandle \<Rightarrow> bool"
  UAVObjGetMetadata :: "UAVObjHandle \<Rightarrow> UAVObjMetadata"
  UAVObjGetLinkedObj :: "UAVObjHandle \<Rightarrow> UAVObjHandle"
  UAVObjGetNumInstances :: "UAVObjHandle \<Rightarrow> uint16"
  UAVObjIsPriority :: "UAVObjHandle \<Rightarrow> bool"
  UAVObjects :: "UAVObjHandle list"
  GCSTelemetryStatsHandle :: UAVObjHandle
  EV_MASK_ALL_UPDATES :: "UAVObjEventType set"
  telemHandle :: telemetryContext
  radioHandle :: telemetryContext
  uavtalkResult :: "nat \<Rightarrow> int"
  portTICK_RATE_MS :: uint32
  uninitialisedMetadata :: UAVObjMetadata

text \<open>
  The state the module changes: its three static counters, the event dispatcher's
  table of periodic events, the registry's queue connections, the two statistics
  objects, the UAVTalk counters of each connection, the tick count, the number of
  UAVTalk sends and requests made so far, and the trace of calls.
\<close>

record tstate =
  txErrors :: uint32
  txRetries :: uint32
  timeOfLastObjectUpdate :: uint32
  periodic :: "(UAVObjEvent \<times> xQueueHandle) \<rightharpoonup> nat"
  connections :: "(UAVObjHandle \<times> xQueueHandle) \<rightharpoonup> UAVObjEventType set"
  flightStats :: FlightTelemetryStatsData
  gcsStats :: GCSTelemetryStatsData
  utalk :: "UAVTalkConnection \<Rightarrow> UAVTalkStats"
  tickCount :: uint32
  attempts :: nat
  calls :: "call list"

text \<open>\<open>PIOS_Assert(false)\<close> halts the firmware: the fault, with the state it halts in.\<close>

datatype fault = PIOS_Assert_failed

type_synonym result = "fault \<times> tstate + tstate"

definition final :: "result \<Rightarrow> tstate" where
  "final r = (case r of Inl (f, s) \<Rightarrow> s | Inr s \<Rightarrow> s)"

definition andThen :: "result \<Rightarrow> (tstate \<Rightarrow> result) \<Rightarrow> result" where
  "andThen r k = (case r of Inl e \<Rightarrow> Inl e | Inr s \<Rightarrow> k s)"

section \<open>The collaborators\<close>

text \<open>
  Modelled from the spec: the event dispatcher (EventPeriodicQueueUpdate and
  EventPeriodicQueueCreate are not among the sources). Re-arming a periodic event that
  exists updates its period in place; arming where none exists creates one.
\<close>

definition EventPeriodicQueueUpdate ::
  "UAVObjEvent \<Rightarrow> xQueueHandle \<Rightarrow> nat \<Rightarrow> tstate \<Rightarrow> int \<times> tstate" where
  "EventPeriodicQueueUpdate ev queue periodMs s =
     (if periodic s (ev, queue) = None then (-1, s)
      else (0, s\<lparr>periodic := (periodic s)((ev, queue) \<mapsto> periodMs)\<rparr>))"

definition EventPeriodicQueueCreate ::
  "UAVObjEvent \<Rightarrow> xQueueHandle \<Rightarrow> nat \<Rightarrow> tstate \<Rightarrow> int \<times> tstate" where
  "EventPeriodicQueueCreate ev queue periodMs s =
     (if periodic s (ev, queue) = None
      then (0, s\<lparr>periodic := (periodic s)((ev, queue) \<mapsto> periodMs)\<rparr>)
      else (-1, s))"

text \<open>
  Modelled from the spec: the registry installs one subscription (an event mask) for an
  object on a queue (UAVObjConnectQueue is not among the sources).
\<close>

definition UAVObjConnectQueue ::
  "UAVObjHandle \<Rightarrow> xQueueHandle \<Rightarrow> UAVObjEventType set \<Rightarrow> tstate \<Rightarrow> tstate" where
  "UAVObjConnectQueue h queue eventMask s =
     s\<lparr>connections := (connections s)((h, queue) \<mapsto> eventMask)\<rparr>"

text \<open>
  Modelled from the spec: the protocol collaborator. A send or a request blocks until the
  acknowledgement or the timeout and returns success or failure (\<open>-1\<close>); the statistics
  of a connection are read and reset together.
\<close>

definition UAVTalkSendObject ::
  "env \<Rightarrow> UAVTalkConnection \<Rightarrow> UAVObjHandle \<Rightarrow> uint16 \<Rightarrow> bool \<Rightarrow> nat \<Rightarrow> tstate \<Rightarrow> int \<times> tstate" where
  "UAVTalkSendObject E con h inst acked timeoutMs s =
     (uavtalkResult E (attempts s),
      s\<lparr>attempts := attempts s + 1,
        calls := calls s @ [SendObject con h inst acked timeoutMs]\<rparr>)"

definition UAVTalkSendObjectRequest ::
  "env \<Rightarrow> UAVTalkConnection \<Rightarrow> UAVObjHandle \<Rightarrow> uint16 \<Rightarrow> nat \<Rightarrow> tstate \<Rightarrow> int \<times> tstate" where
  "UAVTalkSendObjectRequest E con h inst timeoutMs s =
     (uavtalkResult E (attempts s),
      s\<lparr>attempts := attempts s + 1,
        calls := calls s @ [SendObjectRequest con h inst timeoutMs]\<rparr>)"

definition UAVObjInstanceWriteToLog :: "UAVObjHandle \<Rightarrow> uint16 \<Rightarrow> tstate \<Rightarrow> tstate" where
  "UAVObjInstanceWriteToLog h inst s = s\<lparr>calls := calls s @ [InstanceWriteToLog h inst]\<rparr>"

definition noStats :: UAVTalkStats where
  "noStats = \<lparr>txBytes = 0, rxBytes = 0, rxObjects = 0, rxErrors = 0,
              rxSyncErrors = 0, rxCrcErrors = 0\<rparr>"

definition UAVTalkGetStats :: "UAVTalkConnection \<Rightarrow> tstate \<Rightarrow> UAVTalkStats \<times> tstate" where
  "UAVTalkGetStats con s = (utalk s con, s\<lparr>utalk := (utalk s)(con := noStats)\<rparr>)"

definition UAVTalkAddStats ::
  "UAVTalkConnection \<Rightarrow> UAVTalkStats \<Rightarrow> tstate \<Rightarrow> UAVTalkStats \<times> tstate" where
  "UAVTalkAddStats con st s =
     (\<lparr>txBytes = txBytes st + txBytes (utalk s con),
       rxBytes = rxBytes st + rxBytes (utalk s con),
       rxObjects = rxObjects st + rxObjects (utalk s con),
       rxErrors = rxErrors st + rxErrors (utalk s con),
       rxSyncErrors = rxSyncErrors st + rxSyncErrors (utalk s con),
       rxCrcErrors = rxCrcErrors st + rxCrcErrors (utalk s con)\<rparr>,
      s\<lparr>utalk := (utalk s)(con := noStats)\<rparr>)"

section \<open>The update-mode scheduler\<close>

definition targetQueue :: "env \<Rightarrow> telemetryContext \<Rightarrow> UAVObjHandle \<Rightarrow> xQueueHandle" where
  "targetQueue E telemetryHandle h =
     (if PIOS_TELEM_PRIORITY_QUEUE E \<and> UAVObjIsPriority E h
      then priorityQueue telemetryHandle else mainQueue telemetryHandle)"

definition setUpdatePeriod ::
  "env \<Rightarrow> telemetryContext \<Rightarrow> UAVObjHandle \<Rightarrow> nat \<Rightarrow> tstate \<Rightarrow> int \<times> tstate" where
  "setUpdatePeriod E telemetryHandle h updatePeriodMs s =
     (let ev = \<lparr>obj = h, instId = UAVOBJ_ALL_INSTANCES, event = EV_UPDATED_PERIODIC,
                lowPriority = True\<rparr>;
          r = EventPeriodicQueueUpdate ev (targetQueue E telemetryHandle h) updatePeriodMs s
      in if fst r = -1
         then EventPeriodicQueueCreate ev (targetQueue E telemetryHandle h) updatePeriodMs (snd r)
         else r)"

definition setLoggingPeriod ::
  "env \<Rightarrow> telemetryContext \<Rightarrow> UAVObjHandle \<Rightarrow> nat \<Rightarrow> tstate \<Rightarrow> int \<times> tstate" where
  "setLoggingPeriod E telemetryHandle h updatePeriodMs s =
     (let ev = \<lparr>obj = h, instId = UAVOBJ_ALL_INSTANCES, event = EV_LOGGING_PERIODIC,
                lowPriority = True\<rparr>;
          r = EventPeriodicQueueUpdate ev (targetQueue E telemetryHandle h) updatePeriodMs s
      in if fst r = -1
         then EventPeriodicQueueCreate ev (targetQueue E telemetryHandle h) updatePeriodMs (snd r)
         else r)"

text \<open>
  The first switch of updateObject (on the telemetry update mode): the event codes it
  adds to the mask, and the state after its setUpdatePeriod call, if it makes one.
\<close>

definition telemetrySwitch ::
  "env \<Rightarrow> telemetryContext \<Rightarrow> UAVObjHandle \<Rightarrow> UAVObjMetadata \<Rightarrow> UAVObjEventType \<Rightarrow> tstate
     \<Rightarrow> UAVObjEventType set \<times> tstate" where
  "telemetrySwitch E telemetryHandle h metadata eventType s =
     (case telemetryUpdateMode metadata of
        UPDATEMODE_PERIODIC \<Rightarrow>
          ({EV_UPDATED_PERIODIC, EV_UPDATED_MANUAL, EV_UPDATE_REQ},
           snd (setUpdatePeriod E telemetryHandle h (telemetryUpdatePeriod metadata) s))
      | UPDATEMODE_ONCHANGE \<Rightarrow>
          ({EV_UPDATED, EV_UPDATED_MANUAL, EV_UPDATE_REQ},
           snd (setUpdatePeriod E telemetryHandle h 0 s))
      | UPDATEMODE_THROTTLED \<Rightarrow>
          (if eventType = EV_UPDATED_PERIODIC \<or> eventType = EV_NONE
           then ({EV_UPDATED, EV_UPDATED_MANUAL, EV_UPDATE_REQ},
                 if eventType = EV_NONE
                 then snd (setUpdatePeriod E telemetryHandle h (telemetryUpdatePeriod metadata) s)
                 else s)
           else ({EV_UPDATED_PERIODIC, EV_UPDATED_MANUAL, EV_UPDATE_REQ}, s))
      | UPDATEMODE_MANUAL \<Rightarrow>
          ({EV_UPDATED_MANUAL, EV_UPDATE_REQ},
           snd (setUpdatePeriod E telemetryHandle h 0 s)))"

text \<open>The second switch of updateObject (on the logging update mode).\<close>

definition loggingSwitch ::
  "env \<Rightarrow> telemetryContext \<Rightarrow> UAVObjHandle \<Rightarrow> UAVObjMetadata \<Rightarrow> UAVObjEventType \<Rightarrow> tstate
     \<Rightarrow> UAVObjEventType set \<times> tstate" where
  "loggingSwitch E telemetryHandle h metadata eventType s =
     (case loggingUpdateMode metadata of
        UPDATEMODE_PERIODIC \<Rightarrow>
          ({EV_LOGGING_PERIODIC, EV_LOGGING_MANUAL},
           snd (setLoggingPeriod E telemetryHandle h (loggingUpdatePeriod metadata) s))
      | UPDATEMODE_ONCHANGE \<Rightarrow>
          ({EV_UPDATED, EV_LOGGING_MANUAL},
           snd (setLoggingPeriod E telemetryHandle h 0 s))
      | UPDATEMODE_THROTTLED \<Rightarrow>
          (if eventType = EV_LOGGING_PERIODIC \<or> eventType = EV_NONE
           then ({EV_UPDATED, EV_LOGGING_MANUAL},
                 if eventType = EV_NONE
                 then snd (setLoggingPeriod E telemetryHandle h (loggingUpdatePeriod metadata) s)
                 else s)
           else ({EV_LOGGING_PERIODIC, EV_LOGGING_MANUAL}, s))
      | UPDATEMODE_MANUAL \<Rightarrow>
          ({EV_LOGGING_MANUAL},
           snd (setLoggingPeriod E telemetryHandle h 0 s)))"

definition updateObject ::
  "env \<Rightarrow> telemetryContext \<Rightarrow> UAVObjHandle \<Rightarrow> UAVObjEventType \<Rightarrow> tstate \<Rightarrow> result" where
  "updateObject E telemetryHandle h eventType s =
     (if UAVObjIsMetaobject E h then Inl (PIOS_Assert_failed, s)
      else
        let metadata = UAVObjGetMetadata E h;
            t = telemetrySwitch E telemetryHandle h metadata eventType s;
            l = loggingSwitch E telemetryHandle h metadata eventType (snd t);
            eventMask = {} \<union> fst t \<union> fst l
        in Inr (UAVObjConnectQueue h (targetQueue E telemetryHandle h) eventMask (snd l)))"

section \<open>Statistics and the connection state machine\<close>

text \<open>The two statistics reads that open updateTelemetryStats: both connections, added up.\<close>

definition collectStats :: "env \<Rightarrow> tstate \<Rightarrow> UAVTalkStats \<times> tstate" where
  "collectStats E s =
     (let g = UAVTalkGetStats (uavTalkCon (telemHandle E)) s
      in UAVTalkAddStats (uavTalkCon (radioHandle E)) (fst g) (snd g))"

text \<open>
  The connection state update of updateTelemetryStats: the new local status and the
  flag \<open>forceUpdate\<close>.
\<close>

definition connectionUpdate ::
  "FlightTelemetryStatsStatus \<Rightarrow> GCSTelemetryStatsStatus \<Rightarrow> bool
     \<Rightarrow> FlightTelemetryStatsStatus \<times> bool" where
  "connectionUpdate status gcsStatus connectionTimeout =
     (if status = FLIGHTTELEMETRYSTATS_STATUS_DISCONNECTED then
        (if gcsStatus = GCSTELEMETRYSTATS_STATUS_HANDSHAKEREQ
         then (FLIGHTTELEMETRYSTATS_STATUS_HANDSHAKEACK, True)
         else (status, True))
      else if status = FLIGHTTELEMETRYSTATS_STATUS_HANDSHAKEACK then
        (if gcsStatus = GCSTELEMETRYSTATS_STATUS_CONNECTED
         then (FLIGHTTELEMETRYSTATS_STATUS_CONNECTED, True)
         else if gcsStatus = GCSTELEMETRYSTATS_STATUS_DISCONNECTED
         then (FLIGHTTELEMETRYSTATS_STATUS_DISCONNECTED, True)
         else (status, True))
      else if status = FLIGHTTELEMETRYSTATS_STATUS_CONNECTED then
        (if gcsStatus \<noteq> GCSTELEMETRYSTATS_STATUS_CONNECTED \<or> connectionTimeout
         then (FLIGHTTELEMETRYSTATS_STATUS_DISCONNECTED, True)
         else (status, False))
      else (FLIGHTTELEMETRYSTATS_STATUS_DISCONNECTED, True))"

definition dataRate :: "uint32 \<Rightarrow> real" where
  "dataRate bytes = real (unat bytes) / (real STATS_UPDATE_PERIOD_MS / 1000)"

definition updateTelemetryStats :: "env \<Rightarrow> tstate \<Rightarrow> tstate" where
  "updateTelemetryStats E s =
     (let c = collectStats E s;
          utalkStats = fst c;
          s1 = snd c;
          fs0 = flightStats s1;
          gcs = gcsStats s1;
          fs1 = (if Status fs0 = FLIGHTTELEMETRYSTATS_STATUS_CONNECTED
                 then fs0\<lparr>TxDataRate := dataRate (txBytes utalkStats),
                          TxBytes := TxBytes fs0 + txBytes utalkStats,
                          TxFailures := TxFailures fs0 + txErrors s1,
                          TxRetries := TxRetries fs0 + txRetries s1,
                          RxDataRate := dataRate (rxBytes utalkStats),
                          RxBytes := RxBytes fs0 + rxBytes utalkStats,
                          RxFailures := RxFailures fs0 + rxErrors utalkStats,
                          RxSyncErrors := RxSyncErrors fs0 + rxSyncErrors utalkStats,
                          RxCrcErrors := RxCrcErrors fs0 + rxCrcErrors utalkStats\<rparr>
                 else fs0\<lparr>TxDataRate := 0, TxBytes := 0, TxFailures := 0, TxRetries := 0,
                          RxDataRate := 0, RxBytes := 0, RxFailures := 0,
                          RxSyncErrors := 0, RxCrcErrors := 0\<rparr>);
          s2 = s1\<lparr>txErrors := 0, txRetries := 0\<rparr>;
          timeNow = tickCount s2 * portTICK_RATE_MS E;
          s3 = (if rxObjects utalkStats > 0 then s2\<lparr>timeOfLastObjectUpdate := timeNow\<rparr>
                else s2);
          connectionTimeout = (timeNow - timeOfLastObjectUpdate s3 > CONNECTION_TIMEOUT_MS);
          u = connectionUpdate (Status fs1) (GCSStatus gcs) connectionTimeout;
          fs2 = fs1\<lparr>Status := fst u\<rparr>;
          s4 = (if Status fs2 = FLIGHTTELEMETRYSTATS_STATUS_CONNECTED
                then s3\<lparr>calls := calls s3 @ [AlarmsClear]\<rparr> else s3);
          s5 = s4\<lparr>flightStats := fs2\<rparr>
      in if snd u then s5\<lparr>calls := calls s5 @ [StatsUpdated]\<rparr> else s5)"

definition gcsTelemetryStatsUpdated :: "env \<Rightarrow> tstate \<Rightarrow> tstate" where
  "gcsTelemetryStatsUpdated E s =
     (if Status (flightStats s) \<noteq> FLIGHTTELEMETRYSTATS_STATUS_CONNECTED
         \<or> GCSStatus (gcsStats s) \<noteq> GCSTELEMETRYSTATS_STATUS_CONNECTED
      then updateTelemetryStats E s else s)"

section \<open>The dispatch and retry engine\<close>

function sendLoop ::
  "env \<Rightarrow> telemetryContext \<Rightarrow> UAVObjEvent \<Rightarrow> UAVObjMetadata \<Rightarrow> nat \<Rightarrow> int \<Rightarrow> tstate
     \<Rightarrow> nat \<times> int \<times> tstate" where
  "sendLoop E telemetryHandle ev metadata retries success s =
     (if retries < MAX_RETRIES \<and> success = -1
      then (let r = UAVTalkSendObject E (uavTalkCon telemetryHandle) (obj ev) (instId ev)
                      (telemetryAcked metadata) REQ_TIMEOUT_MS s
            in sendLoop E telemetryHandle ev metadata
                 (if fst r = -1 then retries + 1 else retries) (fst r) (snd r))
      else (retries, success, s))"
  by pat_completeness auto
termination
  by (relation "measure (\<lambda>(E, telemetryHandle, ev, metadata, retries, success, s).
        (MAX_RETRIES - retries) + (if success = -1 then 1 else 0))")
     (auto simp: split_def)

function requestLoop ::
  "env \<Rightarrow> telemetryContext \<Rightarrow> UAVObjEvent \<Rightarrow> nat \<Rightarrow> int \<Rightarrow> tstate \<Rightarrow> nat \<times> int \<times> tstate" where
  "requestLoop E telemetryHandle ev retries success s =
     (if retries < MAX_RETRIES \<and> success = -1
      then (let r = UAVTalkSendObjectRequest E (uavTalkCon telemetryHandle) (obj ev) (instId ev)
                      REQ_TIMEOUT_MS s
            in requestLoop E telemetryHandle ev
                 (if fst r = -1 then retries + 1 else retries) (fst r) (snd r))
      else (retries, success, s))"
  by pat_completeness auto
termination
  by (relation "measure (\<lambda>(E, telemetryHandle, ev, retries, success, s).
        (MAX_RETRIES - retries) + (if success = -1 then 1 else 0))")
     (auto simp: split_def)

declare sendLoop.simps [simp del]
declare requestLoop.simps [simp del]

text \<open>The statistics update that follows either loop.\<close>

definition updateTxStats :: "nat \<times> int \<times> tstate \<Rightarrow> tstate" where
  "updateTxStats r =
     (let retries = fst r; success = fst (snd r); s = snd (snd r);
          s1 = s\<lparr>txRetries := txRetries s + of_nat retries\<rparr>
      in if success = -1 then s1\<lparr>txErrors := txErrors s1 + 1\<rparr> else s1)"

text \<open>"Act on event": the send or the request of processObjEvent, with its retries.\<close>

definition actOnEvent ::
  "env \<Rightarrow> telemetryContext \<Rightarrow> UAVObjEvent \<Rightarrow> UAVObjMetadata \<Rightarrow> tstate \<Rightarrow> tstate" where
  "actOnEvent E telemetryHandle ev metadata s =
     (let updateMode = telemetryUpdateMode metadata
      in if (event ev = EV_UPDATED
               \<and> (updateMode = UPDATEMODE_ONCHANGE \<or> updateMode = UPDATEMODE_THROTTLED))
            \<or> event ev = EV_UPDATED_MANUAL
            \<or> (event ev = EV_UPDATED_PERIODIC \<and> updateMode \<noteq> UPDATEMODE_THROTTLED)
         then updateTxStats (sendLoop E telemetryHandle ev metadata 0 (-1) s)
         else if event ev = EV_UPDATE_REQ
         then updateTxStats (requestLoop E telemetryHandle ev 0 (-1) s)
         else s)"

function logLoop :: "UAVObjHandle \<Rightarrow> nat \<Rightarrow> nat \<Rightarrow> tstate \<Rightarrow> tstate" where
  "logLoop h retries success s =
     (if retries < success
      then logLoop h (retries + 1) success (UAVObjInstanceWriteToLog h (of_nat retries) s)
      else s)"
  by pat_completeness auto
termination
  by (relation "measure (\<lambda>(h, retries, success, s). success - retries)") auto

declare logLoop.simps [simp del]

text \<open>"Log UAVObject if necessary": the tail of processObjEvent for a non-null object.\<close>

definition logEvent ::
  "env \<Rightarrow> telemetryContext \<Rightarrow> UAVObjEvent \<Rightarrow> UAVObjMetadata \<Rightarrow> tstate \<Rightarrow> result" where
  "logEvent E telemetryHandle ev metadata s =
     (let updateMode = loggingUpdateMode metadata;
          s1 = (if (event ev = EV_UPDATED
                      \<and> (updateMode = UPDATEMODE_ONCHANGE \<or> updateMode = UPDATEMODE_THROTTLED))
                   \<or> event ev = EV_LOGGING_MANUAL
                   \<or> (event ev = EV_LOGGING_PERIODIC \<and> updateMode \<noteq> UPDATEMODE_THROTTLED)
                then (if instId ev = UAVOBJ_ALL_INSTANCES
                      then logLoop (obj ev) 0 (unat (UAVObjGetNumInstances E (obj ev))) s
                      else UAVObjInstanceWriteToLog (obj ev) (instId ev) s)
                else s)
      in if updateMode = UPDATEMODE_THROTTLED
         then updateObject E telemetryHandle (obj ev) (event ev) s1
         else Inr s1)"

definition processObjEvent ::
  "env \<Rightarrow> telemetryContext \<Rightarrow> UAVObjEvent \<Rightarrow> tstate \<Rightarrow> result" where
  "processObjEvent E telemetryHandle ev s =
     (let r = (if obj ev = 0 then Inr (uninitialisedMetadata E, updateTelemetryStats E s)
               else if obj ev = GCSTelemetryStatsHandle E
               then Inr (uninitialisedMetadata E, gcsTelemetryStatsUpdated E s)
               else
                 let metadata = UAVObjGetMetadata E (obj ev);
                     updateMode = telemetryUpdateMode metadata;
                     s1 = actOnEvent E telemetryHandle ev metadata s
                 in case (if UAVObjIsMetaobject E (obj ev)
                          then updateObject E telemetryHandle (UAVObjGetLinkedObj E (obj ev))
                                 EV_NONE s1
                          else if updateMode = UPDATEMODE_THROTTLED
                          then updateObject E telemetryHandle (obj ev) (event ev) s1
                          else Inr s1) of
                      Inl e \<Rightarrow> Inl e
                    | Inr s2 \<Rightarrow> Inr (metadata, s2))
      in case r of
           Inl e \<Rightarrow> Inl e
         | Inr (metadata, s3) \<Rightarrow>
             if obj ev \<noteq> 0 then logEvent E telemetryHandle ev metadata s3 else Inr s3)"

section \<open>Start-up and the transmit task\<close>

text \<open>
  The queue of a channel that start-up uses for the statistics events, the GCS statistics
  object and the meta-objects: the priority queue when the build has one, else the main
  queue.
\<close>

definition outgoingQueue :: "env \<Rightarrow> telemetryContext \<Rightarrow> xQueueHandle" where
  "outgoingQueue E telemetryHandle =
     (if PIOS_TELEM_PRIORITY_QUEUE E then priorityQueue telemetryHandle
      else mainQueue telemetryHandle)"

text \<open>The event that \<open>memset(&ev, 0, sizeof(UAVObjEvent))\<close> leaves: the statistics sentinel.\<close>

definition statsEvent :: UAVObjEvent where
  "statsEvent = \<lparr>obj = 0, instId = 0, event = EV_NONE, lowPriority = False\<rparr>"


definition registerTelemObject :: "env \<Rightarrow> UAVObjHandle \<Rightarrow> tstate \<Rightarrow> result" where
  "registerTelemObject E h s =
     (if UAVObjIsMetaobject E h
      then Inr (UAVObjConnectQueue h (outgoingQueue E (telemHandle E)) (EV_MASK_ALL_UPDATES E) s)
      else updateObject E (telemHandle E) h EV_NONE s)"

definition registerRadioObject :: "env \<Rightarrow> UAVObjHandle \<Rightarrow> tstate \<Rightarrow> result" where
  "registerRadioObject E h s =
     (if UAVObjIsMetaobject E h
      then Inr (UAVObjConnectQueue h (outgoingQueue E (radioHandle E)) (EV_MASK_ALL_UPDATES E) s)
      else updateObject E (radioHandle E) h EV_NONE s)"

text \<open>Modelled from the spec: the registry's enumeration of all objects (UAVObjIterate).\<close>

fun UAVObjIterate ::
  "(UAVObjHandle \<Rightarrow> tstate \<Rightarrow> result) \<Rightarrow> UAVObjHandle list \<Rightarrow> tstate \<Rightarrow> result" where
  "UAVObjIterate f [] s = Inr s"
| "UAVObjIterate f (h # hs) s = andThen (f h s) (UAVObjIterate f hs)"

definition GCSTelemetryStatsConnectQueue :: "env \<Rightarrow> xQueueHandle \<Rightarrow> tstate \<Rightarrow> tstate" where
  "GCSTelemetryStatsConnectQueue E queue s =
     UAVObjConnectQueue (GCSTelemetryStatsHandle E) queue (EV_MASK_ALL_UPDATES E) s"

text \<open>
  TelemetryStart up to the creation of the four tasks: the transmit task of a channel
  is \<open>telemetryTxTask\<close> below, run on that channel's context.
\<close>

definition TelemetryStart :: "env \<Rightarrow> tstate \<Rightarrow> result" where
  "TelemetryStart E s =
     andThen (UAVObjIterate (registerTelemObject E) (UAVObjects E) s) (\<lambda>s1.
     andThen (UAVObjIterate (registerRadioObject E) (UAVObjects E) s1) (\<lambda>s2.
       Inr (GCSTelemetryStatsConnectQueue E (outgoingQueue E (radioHandle E))
             (GCSTelemetryStatsConnectQueue E (outgoingQueue E (telemHandle E)) s2))))"

text \<open>
  The transmit task. Its queues are filled by other tasks, so the outcome of every
  xQueueReceive call is an input: the script gives, call after call, the event received
  or \<open>None\<close> (the queue stayed empty for the given number of ticks). The task runs for as
  long as the script lasts (the source loops forever) or until the firmware halts. A
  step of the task is a call of xQueueReceive (queue, ticks to wait, outcome) or a call
  of processObjEvent.
\<close>

datatype tx_step =
    Receive xQueueHandle nat "UAVObjEvent option"
  | Process UAVObjEvent

text \<open>
  The four places where the loop body calls xQueueReceive: the non-blocking pop of the
  inner loop that empties the priority queue, the non-blocking pop of the main queue,
  the one-tick wait on the priority queue, and (without a priority queue) the one-tick
  wait on the main queue.
\<close>

datatype tx_location = DrainPriority | PopMain | WaitPriority | WaitMain

record txrun =
  steps :: "tx_step list"
  st :: tstate
  halted :: bool

definition received :: "xQueueHandle \<Rightarrow> nat \<Rightarrow> UAVObjEvent option \<Rightarrow> txrun \<Rightarrow> txrun" where
  "received queue ticks x r = r\<lparr>steps := steps r @ [Receive queue ticks x]\<rparr>"

definition process :: "env \<Rightarrow> telemetryContext \<Rightarrow> UAVObjEvent \<Rightarrow> txrun \<Rightarrow> txrun" where
  "process E telemetryHandle ev r =
     (case processObjEvent E telemetryHandle ev (st r) of
        Inl (f, s) \<Rightarrow> r\<lparr>steps := steps r @ [Process ev], st := s, halted := True\<rparr>
      | Inr s \<Rightarrow> r\<lparr>steps := steps r @ [Process ev], st := s\<rparr>)"

fun txLoop ::
  "env \<Rightarrow> telemetryContext \<Rightarrow> tx_location \<Rightarrow> UAVObjEvent option list \<Rightarrow> txrun \<Rightarrow> txrun" where
  "txLoop E telemetryHandle l [] r = r"
| "txLoop E telemetryHandle DrainPriority (x # xs) r =
     (if halted r then r
      else case x of
             Some ev \<Rightarrow> txLoop E telemetryHandle DrainPriority xs
                          (process E telemetryHandle ev
                             (received (priorityQueue telemetryHandle) 0 x r))
           | None \<Rightarrow> txLoop E telemetryHandle PopMain xs
                          (received (priorityQueue telemetryHandle) 0 x r))"
| "txLoop E telemetryHandle PopMain (x # xs) r =
     (if halted r then r
      else case x of
             Some ev \<Rightarrow> txLoop E telemetryHandle DrainPriority xs
                          (process E telemetryHandle ev
                             (received (mainQueue telemetryHandle) 0 x r))
           | None \<Rightarrow> txLoop E telemetryHandle WaitPriority xs
                          (received (mainQueue telemetryHandle) 0 x r))"
| "txLoop E telemetryHandle WaitPriority (x # xs) r =
     (if halted r then r
      else case x of
             Some ev \<Rightarrow> txLoop E telemetryHandle DrainPriority xs
                          (process E telemetryHandle ev
                             (received (priorityQueue telemetryHandle) 1 x r))
           | None \<Rightarrow> txLoop E telemetryHandle DrainPriority xs
                          (received (priorityQueue telemetryHandle) 1 x r))"
| "txLoop E telemetryHandle WaitMain (x # xs) r =
     (if halted r then r
      else case x of
             Some ev \<Rightarrow> txLoop E telemetryHandle WaitMain xs
                          (process E telemetryHandle ev
                             (received (mainQueue telemetryHandle) 1 x r))
           | None \<Rightarrow> txLoop E telemetryHandle WaitMain xs
                          (received (mainQueue telemetryHandle) 1 x r))"

definition telemetryTxTask ::
  "env \<Rightarrow> telemetryContext option \<Rightarrow> UAVObjEvent option list \<Rightarrow> tstate \<Rightarrow> txrun" where
  "telemetryTxTask E parameters script s =
     (case parameters of
        None \<Rightarrow> \<lparr>steps = [], st = s, halted = False\<rparr>
      | Some telemetryHandle \<Rightarrow>
          txLoop E telemetryHandle
            (if PIOS_TELEM_PRIORITY_QUEUE E then DrainPriority else WaitMain) script
            \<lparr>steps = [], st = s, halted = False\<rparr>)"

section \<open>Observations and sample inputs\<close>

text \<open>The counters of the retry engine: errors, retries, and protocol calls made.\<close>

definition counters :: "tstate \<Rightarrow> uint32 \<times> uint32 \<times> nat" where
  "counters s = (txErrors s, txRetries s, attempts s)"

text \<open>
  A small registry for the examples: object 1 is the GCS telemetry statistics object,
  object 2 a data object with three instances and the given metadata, object 3 the
  meta-object of object 2. The primary channel has the queues 1 and 2, the radio channel
  the queues 3 and 4.
\<close>

definition demoMetadata :: "UAVObjUpdateMode \<Rightarrow> UAVObjUpdateMode \<Rightarrow> UAVObjMetadata" where
  "demoMetadata t l =
     \<lparr>telemetryUpdateMode = t, loggingUpdateMode = l, telemetryAcked = True,
      telemetryUpdatePeriod = 1000, loggingUpdatePeriod = 2000\<rparr>"

definition demoEnv :: "UAVObjMetadata \<Rightarrow> (nat \<Rightarrow> int) \<Rightarrow> env" where
  "demoEnv md outcome =
     \<lparr>PIOS_TELEM_PRIORITY_QUEUE = True,
      UAVObjIsMetaobject = (\<lambda>h. h = 3),
      UAVObjGetMetadata = (\<lambda>h. if h = 3 then demoMetadata UPDATEMODE_ONCHANGE UPDATEMODE_MANUAL
                                else md),
      UAVObjGetLinkedObj = (\<lambda>h. 2),
      UAVObjGetNumInstances = (\<lambda>h. 3),
      UAVObjIsPriority = (\<lambda>h. False),
      UAVObjects = [1, 2, 3],
      GCSTelemetryStatsHandle = 1,
      EV_MASK_ALL_UPDATES = {EV_UPDATED, EV_UPDATED_MANUAL, EV_UPDATED_PERIODIC},
      telemHandle = \<lparr>telemetryPort = 1, mainQueue = 1, priorityQueue = 2, uavTalkCon = 1\<rparr>,
      radioHandle = \<lparr>telemetryPort = 2, mainQueue = 3, priorityQueue = 4, uavTalkCon = 2\<rparr>,
      uavtalkResult = outcome,
      portTICK_RATE_MS = 1,
      uninitialisedMetadata = demoMetadata UPDATEMODE_MANUAL UPDATEMODE_MANUAL\<rparr>"

definition demoFlightStats :: "FlightTelemetryStatsStatus \<Rightarrow> FlightTelemetryStatsData" where
  "demoFlightStats status =
     \<lparr>Status = status, TxDataRate = 0, TxBytes = 100, TxFailures = 0, TxRetries = 0,
      RxDataRate = 0, RxBytes = 0, RxFailures = 0, RxSyncErrors = 0, RxCrcErrors = 0\<rparr>"

definition demoState :: "FlightTelemetryStatsStatus \<Rightarrow> GCSTelemetryStatsStatus \<Rightarrow> tstate" where
  "demoState status gcsStatus =
     \<lparr>txErrors = 0, txRetries = 0, timeOfLastObjectUpdate = 0,
      periodic = Map.empty, connections = Map.empty,
      flightStats = demoFlightStats status,
      gcsStats = \<lparr>GCSStatus = gcsStatus\<rparr>,
      utalk = (\<lambda>c. noStats\<lparr>txBytes := 40\<rparr>),
      tickCount = 20000, attempts = 0, calls = []\<rparr>"

definition demoEvent :: "UAVObjHandle \<Rightarrow> uint16 \<Rightarrow> UAVObjEventType \<Rightarrow> UAVObjEvent" where
  "demoEvent h inst kind = \<lparr>obj = h, instId = inst, event = kind, lowPriority = False\<rparr>"

text \<open>The counters of the published statistics record, in one tuple.\<close>

definition publishedCounters ::
  "FlightTelemetryStatsData \<Rightarrow> real \<times> real \<times> uint32 \<times> uint32 \<times> uint32 \<times> uint32 \<times> uint32 \<times> uint32 \<times> uint32" where
  "publishedCounters f =
     (TxDataRate f, RxDataRate f, TxBytes f, RxBytes f, TxFailures f, TxRetries f,
      RxFailures f, RxSyncErrors f, RxCrcErrors f)"

text \<open>The log writes and the protocol calls among the calls of a trace.\<close>

fun isLogCall :: "call \<Rightarrow> bool" where
  "isLogCall (InstanceWriteToLog h inst) = True"
| "isLogCall c = False"

fun isProtocolCall :: "call \<Rightarrow> bool" where
  "isProtocolCall (SendObject con h inst acked timeoutMs) = True"
| "isProtocolCall (SendObjectRequest con h inst timeoutMs) = True"
| "isProtocolCall c = False"





section \<open>The retry loops and the frame of the scheduler\<close>

lemma sendLoop_ok:
  "uavtalkResult E (attempts s) \<noteq> -1 \<Longrightarrow>
   sendLoop E h ev md 0 (-1) s =
     (0, uavtalkResult E (attempts s),
      snd (UAVTalkSendObject E (uavTalkCon h) (obj ev) (instId ev) (telemetryAcked md) REQ_TIMEOUT_MS s))"
  by (simp add: sendLoop.simps MAX_RETRIES_def UAVTalkSendObject_def Let_def)

lemma sendLoop_retry:
  "uavtalkResult E (attempts s) = -1 \<Longrightarrow>
   sendLoop E h ev md 0 (-1) s =
     (if uavtalkResult E (attempts s + 1) = -1 then 2 else 1, uavtalkResult E (attempts s + 1),
      snd (UAVTalkSendObject E (uavTalkCon h) (obj ev) (instId ev) (telemetryAcked md) REQ_TIMEOUT_MS
        (snd (UAVTalkSendObject E (uavTalkCon h) (obj ev) (instId ev) (telemetryAcked md) REQ_TIMEOUT_MS s))))"
  by (simp add: sendLoop.simps MAX_RETRIES_def UAVTalkSendObject_def Let_def)

lemma requestLoop_ok:
  "uavtalkResult E (attempts s) \<noteq> -1 \<Longrightarrow>
   requestLoop E h ev 0 (-1) s =
     (0, uavtalkResult E (attempts s),
      snd (UAVTalkSendObjectRequest E (uavTalkCon h) (obj ev) (instId ev) REQ_TIMEOUT_MS s))"
  by (simp add: requestLoop.simps MAX_RETRIES_def UAVTalkSendObjectRequest_def Let_def)

lemma requestLoop_retry:
  "uavtalkResult E (attempts s) = -1 \<Longrightarrow>
   requestLoop E h ev 0 (-1) s =
     (if uavtalkResult E (attempts s + 1) = -1 then 2 else 1, uavtalkResult E (attempts s + 1),
      snd (UAVTalkSendObjectRequest E (uavTalkCon h) (obj ev) (instId ev) REQ_TIMEOUT_MS
        (snd (UAVTalkSendObjectRequest E (uavTalkCon h) (obj ev) (instId ev) REQ_TIMEOUT_MS s))))"
  by (simp add: requestLoop.simps MAX_RETRIES_def UAVTalkSendObjectRequest_def Let_def)

lemma counters_send:
  "counters (updateTxStats (sendLoop E h ev md 0 (-1) s)) =
     (if uavtalkResult E (attempts s) \<noteq> -1
      then (txErrors s, txRetries s, attempts s + 1)
      else if uavtalkResult E (attempts s + 1) \<noteq> -1
      then (txErrors s, txRetries s + 1, attempts s + 2)
      else (txErrors s + 1, txRetries s + 2, attempts s + 2))"
  by (simp add: sendLoop_ok sendLoop_retry updateTxStats_def counters_def
        UAVTalkSendObject_def Let_def)

lemma counters_request:
  "counters (updateTxStats (requestLoop E h ev 0 (-1) s)) =
     (if uavtalkResult E (attempts s) \<noteq> -1
      then (txErrors s, txRetries s, attempts s + 1)
      else if uavtalkResult E (attempts s + 1) \<noteq> -1
      then (txErrors s, txRetries s + 1, attempts s + 2)
      else (txErrors s + 1, txRetries s + 2, attempts s + 2))"
  by (simp add: requestLoop_ok requestLoop_retry updateTxStats_def counters_def
        UAVTalkSendObjectRequest_def Let_def)

lemma setUpdatePeriod_snd:
  "snd (setUpdatePeriod E h k p s) =
     s\<lparr>periodic := (periodic s)((\<lparr>obj = k, instId = UAVOBJ_ALL_INSTANCES,
          event = EV_UPDATED_PERIODIC, lowPriority = True\<rparr>, targetQueue E h k) \<mapsto> p)\<rparr>"
  by (simp add: setUpdatePeriod_def EventPeriodicQueueUpdate_def EventPeriodicQueueCreate_def Let_def)

lemma setLoggingPeriod_snd:
  "snd (setLoggingPeriod E h k p s) =
     s\<lparr>periodic := (periodic s)((\<lparr>obj = k, instId = UAVOBJ_ALL_INSTANCES,
          event = EV_LOGGING_PERIODIC, lowPriority = True\<rparr>, targetQueue E h k) \<mapsto> p)\<rparr>"
  by (simp add: setLoggingPeriod_def EventPeriodicQueueUpdate_def EventPeriodicQueueCreate_def Let_def)


lemma telemetrySwitch_fields:
  "txErrors (snd (telemetrySwitch E h k md t s)) = txErrors s"
  "txRetries (snd (telemetrySwitch E h k md t s)) = txRetries s"
  "attempts (snd (telemetrySwitch E h k md t s)) = attempts s"
  "calls (snd (telemetrySwitch E h k md t s)) = calls s"
  "connections (snd (telemetrySwitch E h k md t s)) = connections s"
  by (simp_all add: telemetrySwitch_def setUpdatePeriod_snd split: UAVObjUpdateMode.splits)

lemma loggingSwitch_fields:
  "txErrors (snd (loggingSwitch E h k md t s)) = txErrors s"
  "txRetries (snd (loggingSwitch E h k md t s)) = txRetries s"
  "attempts (snd (loggingSwitch E h k md t s)) = attempts s"
  "calls (snd (loggingSwitch E h k md t s)) = calls s"
  "connections (snd (loggingSwitch E h k md t s)) = connections s"
  by (simp_all add: loggingSwitch_def setLoggingPeriod_snd split: UAVObjUpdateMode.splits)

lemma updateObject_meta:
  "UAVObjIsMetaobject E k \<Longrightarrow> updateObject E h k t s = Inl (PIOS_Assert_failed, s)"
  by (simp add: updateObject_def)

lemma updateObject_data:
  "\<not> UAVObjIsMetaobject E k \<Longrightarrow>
   updateObject E h k t s =
     Inr (UAVObjConnectQueue k (targetQueue E h k)
            (fst (telemetrySwitch E h k (UAVObjGetMetadata E k) t s)
             \<union> fst (loggingSwitch E h k (UAVObjGetMetadata E k) t
                      (snd (telemetrySwitch E h k (UAVObjGetMetadata E k) t s))))
            (snd (loggingSwitch E h k (UAVObjGetMetadata E k) t
                      (snd (telemetrySwitch E h k (UAVObjGetMetadata E k) t s)))))"
  by (simp add: updateObject_def Let_def)

lemma updateObject_counters: "counters (final (updateObject E h k t s)) = counters s"
  by (cases "UAVObjIsMetaobject E k")
     (simp_all add: updateObject_meta updateObject_data final_def counters_def
        UAVObjConnectQueue_def telemetrySwitch_fields loggingSwitch_fields)

lemma updateObject_calls: "calls (final (updateObject E h k t s)) = calls s"
  by (cases "UAVObjIsMetaobject E k")
     (simp_all add: updateObject_meta updateObject_data final_def
        UAVObjConnectQueue_def telemetrySwitch_fields loggingSwitch_fields)

lemma final_andThen:
  "final (andThen r k) = (case r of Inl (f, s) \<Rightarrow> s | Inr s \<Rightarrow> final (k s))"
  by (simp add: final_def andThen_def split: sum.splits prod.splits)

lemma logLoop_calls:
  "calls (logLoop h i n s) = calls s @ map (\<lambda>j. InstanceWriteToLog h (of_nat j)) [i..<n]"
proof (induction h i n s rule: logLoop.induct)
  case (1 h retries success s)
  show ?case
  proof (cases "retries < success")
    case True
    with "1" show ?thesis
      by (subst logLoop.simps) (simp add: UAVObjInstanceWriteToLog_def upt_conv_Cons)
  next
    case False
    then show ?thesis by (subst logLoop.simps) simp
  qed
qed

lemma logLoop_counters: "counters (logLoop h i n s) = counters s"
proof (induction h i n s rule: logLoop.induct)
  case (1 h retries success s)
  show ?case
  proof (cases "retries < success")
    case True
    with "1" show ?thesis
      by (subst logLoop.simps) (simp add: UAVObjInstanceWriteToLog_def counters_def)
  next
    case False
    then show ?thesis by (subst logLoop.simps) simp
  qed
qed

lemma final_simps:
  "final (Inr s) = s"
  "final (Inl (f, s)) = s"
  by (simp_all add: final_def)

lemma writeToLog_counters: "counters (UAVObjInstanceWriteToLog h i s) = counters s"
  by (simp add: counters_def UAVObjInstanceWriteToLog_def)

lemma logEvent_counters: "counters (final (logEvent E h ev md s)) = counters s"
  by (simp add: logEvent_def Let_def updateObject_counters logLoop_counters
        writeToLog_counters final_simps)

lemma processObjEvent_object:
  "obj ev \<noteq> 0 \<Longrightarrow> obj ev \<noteq> GCSTelemetryStatsHandle E \<Longrightarrow>
   processObjEvent E h ev s =
     andThen
       (if UAVObjIsMetaobject E (obj ev)
        then updateObject E h (UAVObjGetLinkedObj E (obj ev)) EV_NONE
               (actOnEvent E h ev (UAVObjGetMetadata E (obj ev)) s)
        else if telemetryUpdateMode (UAVObjGetMetadata E (obj ev)) = UPDATEMODE_THROTTLED
        then updateObject E h (obj ev) (event ev)
               (actOnEvent E h ev (UAVObjGetMetadata E (obj ev)) s)
        else Inr (actOnEvent E h ev (UAVObjGetMetadata E (obj ev)) s))
       (logEvent E h ev (UAVObjGetMetadata E (obj ev)))"
  by (simp add: processObjEvent_def andThen_def Let_def split: sum.splits)

lemma processObjEvent_null:
  "obj ev = 0 \<Longrightarrow> processObjEvent E h ev s = Inr (updateTelemetryStats E s)"
  by (simp add: processObjEvent_def)

lemma processObjEvent_stats:
  "obj ev \<noteq> 0 \<Longrightarrow> obj ev = GCSTelemetryStatsHandle E \<Longrightarrow>
   processObjEvent E h ev s =
     logEvent E h ev (uninitialisedMetadata E) (gcsTelemetryStatsUpdated E s)"
  by (simp add: processObjEvent_def)

lemma processObjEvent_counters:
  "obj ev \<noteq> 0 \<Longrightarrow> obj ev \<noteq> GCSTelemetryStatsHandle E \<Longrightarrow>
   counters (final (processObjEvent E h ev s)) =
     counters (actOnEvent E h ev (UAVObjGetMetadata E (obj ev)) s)"
proof -
  assume a: "obj ev \<noteq> 0" "obj ev \<noteq> GCSTelemetryStatsHandle E"
  have k: "\<And>r md. counters (final (andThen r (logEvent E h ev md))) = counters (final r)"
    by (simp add: final_andThen logEvent_counters final_simps split: sum.splits prod.splits)
  show ?thesis
    using updateObject_counters [of E h _ _ "actOnEvent E h ev (UAVObjGetMetadata E (obj ev)) s"]
    by (simp add: processObjEvent_object [OF a] k final_simps)
qed

lemmas model_defs =
  processObjEvent_def actOnEvent_def logEvent_def updateObject_def telemetrySwitch_def
  loggingSwitch_def setUpdatePeriod_def setLoggingPeriod_def EventPeriodicQueueUpdate_def
  EventPeriodicQueueCreate_def UAVObjConnectQueue_def targetQueue_def updateTxStats_def
  UAVTalkSendObject_def UAVTalkSendObjectRequest_def UAVObjInstanceWriteToLog_def
  final_def andThen_def Let_def MAX_RETRIES_def REQ_TIMEOUT_MS_def
  demoEnv_def demoState_def demoEvent_def demoMetadata_def demoFlightStats_def

section \<open>Retry accounting\<close>

text \<open>
  C1 (as amended). For every dispatch of a send-eligible or update-request event on an
  object (neither the statistics sentinel nor the GCS statistics object), the protocol
  action is attempted at most MAX_RETRIES = 2 times in total: the loop runs while
  \<open>retries < MAX_RETRIES\<close>. A first attempt that succeeds leaves txErrors and txRetries
  unchanged after one call; one failure followed by a success adds 1 to txRetries and
  nothing to txErrors, after two calls; two consecutive failures add 1 to txErrors and
  2 to txRetries, and no third attempt is made, whatever its outcome would be.
\<close>

theorem retry_accounting:
  assumes "obj ev \<noteq> 0" and "obj ev \<noteq> GCSTelemetryStatsHandle E"
    and "(event ev = EV_UPDATED
            \<and> (telemetryUpdateMode (UAVObjGetMetadata E (obj ev)) = UPDATEMODE_ONCHANGE
               \<or> telemetryUpdateMode (UAVObjGetMetadata E (obj ev)) = UPDATEMODE_THROTTLED))
         \<or> event ev = EV_UPDATED_MANUAL
         \<or> (event ev = EV_UPDATED_PERIODIC
            \<and> telemetryUpdateMode (UAVObjGetMetadata E (obj ev)) \<noteq> UPDATEMODE_THROTTLED)
         \<or> event ev = EV_UPDATE_REQ"
  shows "(txErrors (final (processObjEvent E h ev s)),
          txRetries (final (processObjEvent E h ev s)),
          attempts (final (processObjEvent E h ev s))) =
         (if uavtalkResult E (attempts s) \<noteq> -1
          then (txErrors s, txRetries s, attempts s + 1)
          else if uavtalkResult E (attempts s + 1) \<noteq> -1
          then (txErrors s, txRetries s + 1, attempts s + 2)
          else (txErrors s + 1, txRetries s + 2, attempts s + 2))"
proof -
  let ?md = "UAVObjGetMetadata E (obj ev)"
  have "actOnEvent E h ev ?md s = updateTxStats (sendLoop E h ev ?md 0 (-1) s)
        \<or> actOnEvent E h ev ?md s = updateTxStats (requestLoop E h ev 0 (-1) s)"
    using assms(3) by (auto simp: actOnEvent_def Let_def)
  then have "counters (actOnEvent E h ev ?md s) =
         (if uavtalkResult E (attempts s) \<noteq> -1
          then (txErrors s, txRetries s, attempts s + 1)
          else if uavtalkResult E (attempts s + 1) \<noteq> -1
          then (txErrors s, txRetries s + 1, attempts s + 2)
          else (txErrors s + 1, txRetries s + 2, attempts s + 2))"
    using counters_send [of E h ev ?md s] counters_request [of E h ev s] by metis
  then show ?thesis
    using processObjEvent_counters [OF assms(1,2), of h s] by (simp add: counters_def)
qed

theorem retry_accounting_witness:
  "(txErrors (final (processObjEvent
        (demoEnv (demoMetadata UPDATEMODE_ONCHANGE UPDATEMODE_MANUAL) (\<lambda>k. if k < 1 then -1 else 0))
        \<lparr>telemetryPort = 1, mainQueue = 1, priorityQueue = 2, uavTalkCon = 1\<rparr>
        (demoEvent 2 0 EV_UPDATED)
        (demoState FLIGHTTELEMETRYSTATS_STATUS_CONNECTED GCSTELEMETRYSTATS_STATUS_CONNECTED))),
    txRetries (final (processObjEvent
        (demoEnv (demoMetadata UPDATEMODE_ONCHANGE UPDATEMODE_MANUAL) (\<lambda>k. if k < 1 then -1 else 0))
        \<lparr>telemetryPort = 1, mainQueue = 1, priorityQueue = 2, uavTalkCon = 1\<rparr>
        (demoEvent 2 0 EV_UPDATED)
        (demoState FLIGHTTELEMETRYSTATS_STATUS_CONNECTED GCSTELEMETRYSTATS_STATUS_CONNECTED))),
    attempts (final (processObjEvent
        (demoEnv (demoMetadata UPDATEMODE_ONCHANGE UPDATEMODE_MANUAL) (\<lambda>k. if k < 1 then -1 else 0))
        \<lparr>telemetryPort = 1, mainQueue = 1, priorityQueue = 2, uavTalkCon = 1\<rparr>
        (demoEvent 2 0 EV_UPDATED)
        (demoState FLIGHTTELEMETRYSTATS_STATUS_CONNECTED GCSTELEMETRYSTATS_STATUS_CONNECTED))))
   = (0, 1, 2)"
  using retry_accounting
    [of "demoEvent 2 0 EV_UPDATED"
        "demoEnv (demoMetadata UPDATEMODE_ONCHANGE UPDATEMODE_MANUAL) (\<lambda>k. if k < 1 then -1 else 0)"
        "\<lparr>telemetryPort = 1, mainQueue = 1, priorityQueue = 2, uavTalkCon = 1\<rparr>"
        "demoState FLIGHTTELEMETRYSTATS_STATUS_CONNECTED GCSTELEMETRYSTATS_STATUS_CONNECTED"]
  by (simp add: demoEnv_def demoState_def demoEvent_def demoMetadata_def)

text \<open>
  The claim as stated fails: with two failed attempts followed by an outcome that would
  be a success, the error counter goes up by one, after two calls only.
\<close>

theorem retry_ceiling_counterexample:
  "uavtalkResult (demoEnv (demoMetadata UPDATEMODE_ONCHANGE UPDATEMODE_MANUAL)
       (\<lambda>k. if k < 2 then -1 else 0)) 2 = 0
   \<and> txErrors (final (processObjEvent
        (demoEnv (demoMetadata UPDATEMODE_ONCHANGE UPDATEMODE_MANUAL) (\<lambda>k. if k < 2 then -1 else 0))
        \<lparr>telemetryPort = 1, mainQueue = 1, priorityQueue = 2, uavTalkCon = 1\<rparr>
        (demoEvent 2 0 EV_UPDATED)
        (demoState FLIGHTTELEMETRYSTATS_STATUS_CONNECTED GCSTELEMETRYSTATS_STATUS_CONNECTED))) = 1
   \<and> attempts (final (processObjEvent
        (demoEnv (demoMetadata UPDATEMODE_ONCHANGE UPDATEMODE_MANUAL) (\<lambda>k. if k < 2 then -1 else 0))
        \<lparr>telemetryPort = 1, mainQueue = 1, priorityQueue = 2, uavTalkCon = 1\<rparr>
        (demoEvent 2 0 EV_UPDATED)
        (demoState FLIGHTTELEMETRYSTATS_STATUS_CONNECTED GCSTELEMETRYSTATS_STATUS_CONNECTED))) = 2"
  by (simp add: model_defs sendLoop.simps)

section \<open>The connection state machine and the published statistics\<close>

lemma collectStats_fields:
  "flightStats (snd (collectStats E s)) = flightStats s"
  "gcsStats (snd (collectStats E s)) = gcsStats s"
  "tickCount (snd (collectStats E s)) = tickCount s"
  "timeOfLastObjectUpdate (snd (collectStats E s)) = timeOfLastObjectUpdate s"
  "txErrors (snd (collectStats E s)) = txErrors s"
  "txRetries (snd (collectStats E s)) = txRetries s"
  "calls (snd (collectStats E s)) = calls s"
  "attempts (snd (collectStats E s)) = attempts s"
  "periodic (snd (collectStats E s)) = periodic s"
  "connections (snd (collectStats E s)) = connections s"
  by (simp_all add: collectStats_def UAVTalkGetStats_def UAVTalkAddStats_def Let_def)

lemma word_gt_0_iff: "(0 < (x :: uint32)) = (x \<noteq> 0)"
  by (simp add: word_neq_0_conv)

lemma updateTelemetryStats_status:
  "Status (flightStats (updateTelemetryStats E s)) =
     fst (connectionUpdate (Status (flightStats s)) (GCSStatus (gcsStats s))
            (rxObjects (fst (collectStats E s)) = 0
             \<and> CONNECTION_TIMEOUT_MS < tickCount s * portTICK_RATE_MS E - timeOfLastObjectUpdate s))"
  by (auto simp add: updateTelemetryStats_def Let_def collectStats_fields CONNECTION_TIMEOUT_MS_def word_gt_0_iff)

lemma updateTelemetryStats_calls:
  "calls (updateTelemetryStats E s) =
     calls s
     @ (if Status (flightStats (updateTelemetryStats E s)) = FLIGHTTELEMETRYSTATS_STATUS_CONNECTED
        then [AlarmsClear] else [])
     @ (if snd (connectionUpdate (Status (flightStats s)) (GCSStatus (gcsStats s))
            (rxObjects (fst (collectStats E s)) = 0
             \<and> CONNECTION_TIMEOUT_MS < tickCount s * portTICK_RATE_MS E - timeOfLastObjectUpdate s))
        then [StatsUpdated] else [])"
  by (auto simp add: updateTelemetryStats_def Let_def collectStats_fields CONNECTION_TIMEOUT_MS_def word_gt_0_iff)

lemmas stats_defs =
  updateTelemetryStats_def collectStats_def UAVTalkGetStats_def UAVTalkAddStats_def
  connectionUpdate_def noStats_def CONNECTION_TIMEOUT_MS_def dataRate_def
  STATS_UPDATE_PERIOD_MS_def publishedCounters_def

text \<open>
  C2. One step of the connection state machine, on a statistics tick: DISCONNECTED goes
  to HANDSHAKEACK when the peer requests a handshake (and stays otherwise); HANDSHAKEACK
  goes to CONNECTED when the peer reports connected, to DISCONNECTED when it reports
  disconnected, and is otherwise unchanged; CONNECTED goes to DISCONNECTED when the peer is
  not connected or the connection timed out (no object received in this period, and more
  than CONNECTION_TIMEOUT_MS since the last one), and stays CONNECTED otherwise; any
  other local state goes to DISCONNECTED. The statistics object is published by force
  (FlightTelemetryStatsUpdated) in every case but the one that stays CONNECTED.
\<close>

theorem connection_state_step:
  "Status (flightStats (updateTelemetryStats E s)) =
     (case Status (flightStats s) of
        FLIGHTTELEMETRYSTATS_STATUS_DISCONNECTED \<Rightarrow>
          (if GCSStatus (gcsStats s) = GCSTELEMETRYSTATS_STATUS_HANDSHAKEREQ
           then FLIGHTTELEMETRYSTATS_STATUS_HANDSHAKEACK
           else FLIGHTTELEMETRYSTATS_STATUS_DISCONNECTED)
      | FLIGHTTELEMETRYSTATS_STATUS_HANDSHAKEACK \<Rightarrow>
          (if GCSStatus (gcsStats s) = GCSTELEMETRYSTATS_STATUS_CONNECTED
           then FLIGHTTELEMETRYSTATS_STATUS_CONNECTED
           else if GCSStatus (gcsStats s) = GCSTELEMETRYSTATS_STATUS_DISCONNECTED
           then FLIGHTTELEMETRYSTATS_STATUS_DISCONNECTED
           else FLIGHTTELEMETRYSTATS_STATUS_HANDSHAKEACK)
      | FLIGHTTELEMETRYSTATS_STATUS_CONNECTED \<Rightarrow>
          (if GCSStatus (gcsStats s) \<noteq> GCSTELEMETRYSTATS_STATUS_CONNECTED
              \<or> (rxObjects (fst (collectStats E s)) = 0
                  \<and> CONNECTION_TIMEOUT_MS
                       < tickCount s * portTICK_RATE_MS E - timeOfLastObjectUpdate s)
           then FLIGHTTELEMETRYSTATS_STATUS_DISCONNECTED
           else FLIGHTTELEMETRYSTATS_STATUS_CONNECTED)
      | FLIGHTTELEMETRYSTATS_STATUS_HANDSHAKEREQ \<Rightarrow> FLIGHTTELEMETRYSTATS_STATUS_DISCONNECTED)
   \<and> calls (updateTelemetryStats E s) =
       calls s
       @ (if Status (flightStats (updateTelemetryStats E s)) = FLIGHTTELEMETRYSTATS_STATUS_CONNECTED
          then [AlarmsClear] else [])
       @ (if Status (flightStats s) = FLIGHTTELEMETRYSTATS_STATUS_CONNECTED
             \<and> GCSStatus (gcsStats s) = GCSTELEMETRYSTATS_STATUS_CONNECTED
             \<and> \<not> (rxObjects (fst (collectStats E s)) = 0
                  \<and> CONNECTION_TIMEOUT_MS
                       < tickCount s * portTICK_RATE_MS E - timeOfLastObjectUpdate s)
          then [] else [StatsUpdated])"
proof -
  let ?timeout = "rxObjects (fst (collectStats E s)) = 0
     \<and> CONNECTION_TIMEOUT_MS < tickCount s * portTICK_RATE_MS E - timeOfLastObjectUpdate s"
  let ?u = "connectionUpdate (Status (flightStats s)) (GCSStatus (gcsStats s)) ?timeout"
  have st: "fst ?u =
     (case Status (flightStats s) of
        FLIGHTTELEMETRYSTATS_STATUS_DISCONNECTED \<Rightarrow>
          (if GCSStatus (gcsStats s) = GCSTELEMETRYSTATS_STATUS_HANDSHAKEREQ
           then FLIGHTTELEMETRYSTATS_STATUS_HANDSHAKEACK
           else FLIGHTTELEMETRYSTATS_STATUS_DISCONNECTED)
      | FLIGHTTELEMETRYSTATS_STATUS_HANDSHAKEACK \<Rightarrow>
          (if GCSStatus (gcsStats s) = GCSTELEMETRYSTATS_STATUS_CONNECTED
           then FLIGHTTELEMETRYSTATS_STATUS_CONNECTED
           else if GCSStatus (gcsStats s) = GCSTELEMETRYSTATS_STATUS_DISCONNECTED
           then FLIGHTTELEMETRYSTATS_STATUS_DISCONNECTED
           else FLIGHTTELEMETRYSTATS_STATUS_HANDSHAKEACK)
      | FLIGHTTELEMETRYSTATS_STATUS_CONNECTED \<Rightarrow>
          (if GCSStatus (gcsStats s) \<noteq> GCSTELEMETRYSTATS_STATUS_CONNECTED \<or> ?timeout
           then FLIGHTTELEMETRYSTATS_STATUS_DISCONNECTED
           else FLIGHTTELEMETRYSTATS_STATUS_CONNECTED)
      | FLIGHTTELEMETRYSTATS_STATUS_HANDSHAKEREQ \<Rightarrow> FLIGHTTELEMETRYSTATS_STATUS_DISCONNECTED)"
    by (cases "Status (flightStats s)") (simp_all add: connectionUpdate_def)
  have fu: "snd ?u =
     (\<not> (Status (flightStats s) = FLIGHTTELEMETRYSTATS_STATUS_CONNECTED
         \<and> GCSStatus (gcsStats s) = GCSTELEMETRYSTATS_STATUS_CONNECTED \<and> \<not> ?timeout))"
    by (cases "Status (flightStats s)") (simp_all add: connectionUpdate_def)
  show ?thesis
    using st fu updateTelemetryStats_status [of E s] updateTelemetryStats_calls [of E s]
    by simp
qed

theorem connection_state_step_witness:
  "Status (flightStats (updateTelemetryStats
      (demoEnv (demoMetadata UPDATEMODE_ONCHANGE UPDATEMODE_MANUAL) (\<lambda>k. 0))
      (demoState FLIGHTTELEMETRYSTATS_STATUS_DISCONNECTED GCSTELEMETRYSTATS_STATUS_HANDSHAKEREQ)))
     = FLIGHTTELEMETRYSTATS_STATUS_HANDSHAKEACK
   \<and> calls (updateTelemetryStats
      (demoEnv (demoMetadata UPDATEMODE_ONCHANGE UPDATEMODE_MANUAL) (\<lambda>k. 0))
      (demoState FLIGHTTELEMETRYSTATS_STATUS_DISCONNECTED GCSTELEMETRYSTATS_STATUS_HANDSHAKEREQ))
     = [StatsUpdated]"
  using connection_state_step
    [of "demoEnv (demoMetadata UPDATEMODE_ONCHANGE UPDATEMODE_MANUAL) (\<lambda>k. 0)"
        "demoState FLIGHTTELEMETRYSTATS_STATUS_DISCONNECTED GCSTELEMETRYSTATS_STATUS_HANDSHAKEREQ"]
  by (simp add: demoState_def demoFlightStats_def)

text \<open>
  C3 (as amended). The counters that a statistics tick publishes are all zero when the
  connection state at the start of the tick is not CONNECTED. A tick that starts
  CONNECTED publishes the accumulated counters and the rates of the period, also when it
  is the tick that leaves CONNECTED: the zeros follow on the next tick.
\<close>

theorem published_counters:
  "publishedCounters (flightStats (updateTelemetryStats E s)) =
     (if Status (flightStats s) = FLIGHTTELEMETRYSTATS_STATUS_CONNECTED
      then (dataRate (txBytes (fst (collectStats E s))),
            dataRate (rxBytes (fst (collectStats E s))),
            TxBytes (flightStats s) + txBytes (fst (collectStats E s)),
            RxBytes (flightStats s) + rxBytes (fst (collectStats E s)),
            TxFailures (flightStats s) + txErrors s,
            TxRetries (flightStats s) + txRetries s,
            RxFailures (flightStats s) + rxErrors (fst (collectStats E s)),
            RxSyncErrors (flightStats s) + rxSyncErrors (fst (collectStats E s)),
            RxCrcErrors (flightStats s) + rxCrcErrors (fst (collectStats E s)))
      else (0, 0, 0, 0, 0, 0, 0, 0, 0))"
proof (cases "Status (flightStats s) = FLIGHTTELEMETRYSTATS_STATUS_CONNECTED")
  case True
  then show ?thesis
    by (simp add: updateTelemetryStats_def Let_def collectStats_fields publishedCounters_def)
next
  case False
  then show ?thesis
    by (simp add: updateTelemetryStats_def Let_def collectStats_fields publishedCounters_def)
qed

theorem published_counters_witness:
  "publishedCounters (flightStats (updateTelemetryStats
      (demoEnv (demoMetadata UPDATEMODE_ONCHANGE UPDATEMODE_MANUAL) (\<lambda>k. 0))
      (demoState FLIGHTTELEMETRYSTATS_STATUS_DISCONNECTED GCSTELEMETRYSTATS_STATUS_HANDSHAKEREQ)))
     = (0, 0, 0, 0, 0, 0, 0, 0, 0)"
  using published_counters
    [of "demoEnv (demoMetadata UPDATEMODE_ONCHANGE UPDATEMODE_MANUAL) (\<lambda>k. 0)"
        "demoState FLIGHTTELEMETRYSTATS_STATUS_DISCONNECTED GCSTELEMETRYSTATS_STATUS_HANDSHAKEREQ"]
  by (simp add: demoState_def demoFlightStats_def)

text \<open>
  The claim as stated fails on the tick that leaves CONNECTED by timeout: no object was
  received, the published state is DISCONNECTED, and the published byte counter and rate
  are not zero.
\<close>

theorem timeout_tick_counterexample:
  "Status (flightStats (demoState FLIGHTTELEMETRYSTATS_STATUS_CONNECTED
      GCSTELEMETRYSTATS_STATUS_CONNECTED)) = FLIGHTTELEMETRYSTATS_STATUS_CONNECTED
   \<and> rxObjects (fst (collectStats
        (demoEnv (demoMetadata UPDATEMODE_ONCHANGE UPDATEMODE_MANUAL) (\<lambda>k. 0))
        (demoState FLIGHTTELEMETRYSTATS_STATUS_CONNECTED GCSTELEMETRYSTATS_STATUS_CONNECTED))) = 0
   \<and> Status (flightStats (updateTelemetryStats
        (demoEnv (demoMetadata UPDATEMODE_ONCHANGE UPDATEMODE_MANUAL) (\<lambda>k. 0))
        (demoState FLIGHTTELEMETRYSTATS_STATUS_CONNECTED GCSTELEMETRYSTATS_STATUS_CONNECTED)))
       = FLIGHTTELEMETRYSTATS_STATUS_DISCONNECTED
   \<and> TxBytes (flightStats (updateTelemetryStats
        (demoEnv (demoMetadata UPDATEMODE_ONCHANGE UPDATEMODE_MANUAL) (\<lambda>k. 0))
        (demoState FLIGHTTELEMETRYSTATS_STATUS_CONNECTED GCSTELEMETRYSTATS_STATUS_CONNECTED)))
       = 180
   \<and> TxDataRate (flightStats (updateTelemetryStats
        (demoEnv (demoMetadata UPDATEMODE_ONCHANGE UPDATEMODE_MANUAL) (\<lambda>k. 0))
        (demoState FLIGHTTELEMETRYSTATS_STATUS_CONNECTED GCSTELEMETRYSTATS_STATUS_CONNECTED)))
       = 20"
  by (simp add: stats_defs model_defs)

section \<open>The update-mode scheduler in THROTTLED mode\<close>

lemma telemetrySwitch_periodic:
  "periodic (snd (telemetrySwitch E h k md t s)) =
     (case telemetryUpdateMode md of
        UPDATEMODE_PERIODIC \<Rightarrow>
          (periodic s)((\<lparr>obj = k, instId = UAVOBJ_ALL_INSTANCES, event = EV_UPDATED_PERIODIC,
             lowPriority = True\<rparr>, targetQueue E h k) \<mapsto> telemetryUpdatePeriod md)
      | UPDATEMODE_THROTTLED \<Rightarrow>
          (if t = EV_NONE
           then (periodic s)((\<lparr>obj = k, instId = UAVOBJ_ALL_INSTANCES,
             event = EV_UPDATED_PERIODIC, lowPriority = True\<rparr>, targetQueue E h k)
               \<mapsto> telemetryUpdatePeriod md)
           else periodic s)
      | _ \<Rightarrow>
          (periodic s)((\<lparr>obj = k, instId = UAVOBJ_ALL_INSTANCES, event = EV_UPDATED_PERIODIC,
             lowPriority = True\<rparr>, targetQueue E h k) \<mapsto> 0))"
  by (simp add: telemetrySwitch_def setUpdatePeriod_snd split: UAVObjUpdateMode.splits)

lemma loggingSwitch_other_key:
  "event e \<noteq> EV_LOGGING_PERIODIC \<Longrightarrow>
   periodic (snd (loggingSwitch E h k md t s)) (e, q) = periodic s (e, q)"
  by (auto simp add: loggingSwitch_def setLoggingPeriod_snd split: UAVObjUpdateMode.splits)

lemma loggingSwitch_mask:
  "fst (loggingSwitch E h k md t s) =
     (case loggingUpdateMode md of
        UPDATEMODE_PERIODIC \<Rightarrow> {EV_LOGGING_PERIODIC, EV_LOGGING_MANUAL}
      | UPDATEMODE_ONCHANGE \<Rightarrow> {EV_UPDATED, EV_LOGGING_MANUAL}
      | UPDATEMODE_THROTTLED \<Rightarrow>
          (if t = EV_LOGGING_PERIODIC \<or> t = EV_NONE then {EV_UPDATED, EV_LOGGING_MANUAL}
           else {EV_LOGGING_PERIODIC, EV_LOGGING_MANUAL})
      | UPDATEMODE_MANUAL \<Rightarrow> {EV_LOGGING_MANUAL})"
  by (simp add: loggingSwitch_def split: UAVObjUpdateMode.splits)

lemma telemetrySwitch_mask:
  "fst (telemetrySwitch E h k md t s) =
     (case telemetryUpdateMode md of
        UPDATEMODE_PERIODIC \<Rightarrow> {EV_UPDATED_PERIODIC, EV_UPDATED_MANUAL, EV_UPDATE_REQ}
      | UPDATEMODE_ONCHANGE \<Rightarrow> {EV_UPDATED, EV_UPDATED_MANUAL, EV_UPDATE_REQ}
      | UPDATEMODE_THROTTLED \<Rightarrow>
          (if t = EV_UPDATED_PERIODIC \<or> t = EV_NONE
           then {EV_UPDATED, EV_UPDATED_MANUAL, EV_UPDATE_REQ}
           else {EV_UPDATED_PERIODIC, EV_UPDATED_MANUAL, EV_UPDATE_REQ})
      | UPDATEMODE_MANUAL \<Rightarrow> {EV_UPDATED_MANUAL, EV_UPDATE_REQ})"
  by (simp add: telemetrySwitch_def split: UAVObjUpdateMode.splits)

lemma updateObject_connections:
  "\<not> UAVObjIsMetaobject E k \<Longrightarrow>
   connections (final (updateObject E h k t s)) (k, targetQueue E h k) =
     Some (fst (telemetrySwitch E h k (UAVObjGetMetadata E k) t s)
           \<union> fst (loggingSwitch E h k (UAVObjGetMetadata E k) t s))"
  by (simp add: updateObject_data final_simps UAVObjConnectQueue_def
        loggingSwitch_mask [of E h k _ t "snd _"] loggingSwitch_mask [of E h k _ t s])

lemma updateObject_periodic:
  "\<not> UAVObjIsMetaobject E k \<Longrightarrow>
   periodic (final (updateObject E h k t s)) =
     periodic (snd (loggingSwitch E h k (UAVObjGetMetadata E k) t
                 (snd (telemetrySwitch E h k (UAVObjGetMetadata E k) t s))))"
  by (simp add: updateObject_data final_simps UAVObjConnectQueue_def)

lemma processObjEvent_both_throttled:
  assumes "obj ev \<noteq> 0" and "obj ev \<noteq> GCSTelemetryStatsHandle E"
    and "\<not> UAVObjIsMetaobject E (obj ev)"
    and "telemetryUpdateMode (UAVObjGetMetadata E (obj ev)) = UPDATEMODE_THROTTLED"
    and "loggingUpdateMode (UAVObjGetMetadata E (obj ev)) = UPDATEMODE_THROTTLED"
  shows "\<exists>s3. processObjEvent E h ev s = updateObject E h (obj ev) (event ev) s3"
proof -
  let ?md = "UAVObjGetMetadata E (obj ev)"
  obtain s2 where s2: "updateObject E h (obj ev) (event ev) (actOnEvent E h ev ?md s) = Inr s2"
    using assms(3) by (simp add: updateObject_data)
  obtain s3 where s3: "logEvent E h ev ?md s2 = updateObject E h (obj ev) (event ev) s3"
    using assms(5) by (simp add: logEvent_def Let_def)
  have "processObjEvent E h ev s = updateObject E h (obj ev) (event ev) s3"
    using assms s2 s3 by (simp add: processObjEvent_object andThen_def)
  then show ?thesis by blast
qed

text \<open>
  C4. For a non-meta object whose telemetry mode is THROTTLED, updateObject is bistable.
  When the trigger is EV_UPDATED_PERIODIC or EV_NONE (the initial call), the telemetry
  part of the mask it installs is {EV_UPDATED, EV_UPDATED_MANUAL, EV_UPDATE_REQ}, and
  only for EV_NONE is the periodic event armed at the telemetry update period; for every
  other trigger the telemetry part is {EV_UPDATED_PERIODIC, EV_UPDATED_MANUAL,
  EV_UPDATE_REQ} and the period of the periodic event is left as it was. The mask
  installed is the union of this part with the part of the logging switch, which only
  holds codes among EV_UPDATED, EV_LOGGING_MANUAL and EV_LOGGING_PERIODIC.
\<close>

theorem throttled_telemetry_bistable:
  assumes "\<not> UAVObjIsMetaobject E k"
    and "telemetryUpdateMode (UAVObjGetMetadata E k) = UPDATEMODE_THROTTLED"
  shows "(\<exists>s'. updateObject E h k trigger s = Inr s')
    \<and> connections (final (updateObject E h k trigger s)) (k, targetQueue E h k) =
        Some ((if trigger = EV_UPDATED_PERIODIC \<or> trigger = EV_NONE
               then {EV_UPDATED, EV_UPDATED_MANUAL, EV_UPDATE_REQ}
               else {EV_UPDATED_PERIODIC, EV_UPDATED_MANUAL, EV_UPDATE_REQ})
              \<union> fst (loggingSwitch E h k (UAVObjGetMetadata E k) trigger s))
    \<and> fst (loggingSwitch E h k (UAVObjGetMetadata E k) trigger s)
        \<subseteq> {EV_UPDATED, EV_LOGGING_MANUAL, EV_LOGGING_PERIODIC}
    \<and> periodic (final (updateObject E h k trigger s))
         (\<lparr>obj = k, instId = UAVOBJ_ALL_INSTANCES, event = EV_UPDATED_PERIODIC,
           lowPriority = True\<rparr>, targetQueue E h k) =
        (if trigger = EV_NONE then Some (telemetryUpdatePeriod (UAVObjGetMetadata E k))
         else periodic s (\<lparr>obj = k, instId = UAVOBJ_ALL_INSTANCES,
                event = EV_UPDATED_PERIODIC, lowPriority = True\<rparr>, targetQueue E h k))"
proof -
  let ?md = "UAVObjGetMetadata E k"
  let ?key = "(\<lparr>obj = k, instId = UAVOBJ_ALL_INSTANCES, event = EV_UPDATED_PERIODIC,
                lowPriority = True\<rparr>, targetQueue E h k)"
  have runs: "\<exists>s'. updateObject E h k trigger s = Inr s'"
    using assms(1) by (simp add: updateObject_data)
  have mask: "connections (final (updateObject E h k trigger s)) (k, targetQueue E h k) =
        Some ((if trigger = EV_UPDATED_PERIODIC \<or> trigger = EV_NONE
               then {EV_UPDATED, EV_UPDATED_MANUAL, EV_UPDATE_REQ}
               else {EV_UPDATED_PERIODIC, EV_UPDATED_MANUAL, EV_UPDATE_REQ})
              \<union> fst (loggingSwitch E h k ?md trigger s))"
    using assms by (simp add: updateObject_connections telemetrySwitch_mask)
  have sub: "fst (loggingSwitch E h k ?md trigger s)
        \<subseteq> {EV_UPDATED, EV_LOGGING_MANUAL, EV_LOGGING_PERIODIC}"
    by (cases "loggingUpdateMode ?md") (simp_all add: loggingSwitch_mask)
  have "periodic (final (updateObject E h k trigger s)) ?key =
        periodic (snd (telemetrySwitch E h k ?md trigger s)) ?key"
    using assms(1) by (simp add: updateObject_periodic loggingSwitch_other_key)
  then have timer: "periodic (final (updateObject E h k trigger s)) ?key =
        (if trigger = EV_NONE then Some (telemetryUpdatePeriod ?md) else periodic s ?key)"
    using assms(2) by (simp add: telemetrySwitch_periodic)
  from runs mask sub timer show ?thesis by blast
qed

theorem throttled_telemetry_bistable_witness:
  "connections (final (updateObject
       (demoEnv (demoMetadata UPDATEMODE_THROTTLED UPDATEMODE_MANUAL) (\<lambda>k. 0))
       \<lparr>telemetryPort = 1, mainQueue = 1, priorityQueue = 2, uavTalkCon = 1\<rparr> 2 EV_UPDATED
       (demoState FLIGHTTELEMETRYSTATS_STATUS_CONNECTED GCSTELEMETRYSTATS_STATUS_CONNECTED)))
     (2, 1) = Some {EV_UPDATED_PERIODIC, EV_UPDATED_MANUAL, EV_UPDATE_REQ, EV_LOGGING_MANUAL}
   \<and> periodic (final (updateObject
       (demoEnv (demoMetadata UPDATEMODE_THROTTLED UPDATEMODE_MANUAL) (\<lambda>k. 0))
       \<lparr>telemetryPort = 1, mainQueue = 1, priorityQueue = 2, uavTalkCon = 1\<rparr> 2 EV_UPDATED
       (demoState FLIGHTTELEMETRYSTATS_STATUS_CONNECTED GCSTELEMETRYSTATS_STATUS_CONNECTED)))
     (\<lparr>obj = 2, instId = UAVOBJ_ALL_INSTANCES, event = EV_UPDATED_PERIODIC,
       lowPriority = True\<rparr>, 1) = None"
  using throttled_telemetry_bistable
    [of "demoEnv (demoMetadata UPDATEMODE_THROTTLED UPDATEMODE_MANUAL) (\<lambda>k. 0)" 2
        "\<lparr>telemetryPort = 1, mainQueue = 1, priorityQueue = 2, uavTalkCon = 1\<rparr>" EV_UPDATED
        "demoState FLIGHTTELEMETRYSTATS_STATUS_CONNECTED GCSTELEMETRYSTATS_STATUS_CONNECTED"]
  by (simp add: demoEnv_def demoState_def demoMetadata_def loggingSwitch_def
        setLoggingPeriod_def targetQueue_def insert_commute)

text \<open>
  C9. The two THROTTLED bistables share one call and one trigger: with both modes
  THROTTLED, updateObject compares the trigger with EV_UPDATED_PERIODIC (and EV_NONE)
  for the telemetry part and with EV_LOGGING_PERIODIC (and EV_NONE) for the logging
  part, and installs both parts at once. A trigger EV_LOGGING_PERIODIC puts the
  telemetry part into its periodic-only shape and the logging part into its
  change-enabled shape, and so does the dispatch of an EV_LOGGING_PERIODIC event by
  processObjEvent.
\<close>

theorem throttled_modes_share_trigger:
  assumes "\<not> UAVObjIsMetaobject E k"
    and "telemetryUpdateMode (UAVObjGetMetadata E k) = UPDATEMODE_THROTTLED"
    and "loggingUpdateMode (UAVObjGetMetadata E k) = UPDATEMODE_THROTTLED"
  shows "connections (final (updateObject E h k trigger s)) (k, targetQueue E h k) =
        Some ((if trigger = EV_UPDATED_PERIODIC \<or> trigger = EV_NONE
               then {EV_UPDATED, EV_UPDATED_MANUAL, EV_UPDATE_REQ}
               else {EV_UPDATED_PERIODIC, EV_UPDATED_MANUAL, EV_UPDATE_REQ})
              \<union> (if trigger = EV_LOGGING_PERIODIC \<or> trigger = EV_NONE
                 then {EV_UPDATED, EV_LOGGING_MANUAL}
                 else {EV_LOGGING_PERIODIC, EV_LOGGING_MANUAL}))
    \<and> connections (final (updateObject E h k EV_LOGGING_PERIODIC s)) (k, targetQueue E h k) =
        Some ({EV_UPDATED_PERIODIC, EV_UPDATED_MANUAL, EV_UPDATE_REQ}
              \<union> {EV_UPDATED, EV_LOGGING_MANUAL})
    \<and> (k \<noteq> 0 \<and> k \<noteq> GCSTelemetryStatsHandle E \<longrightarrow>
        connections (final (processObjEvent E h
            \<lparr>obj = k, instId = inst, event = EV_LOGGING_PERIODIC, lowPriority = low\<rparr> s))
          (k, targetQueue E h k) =
        Some ({EV_UPDATED_PERIODIC, EV_UPDATED_MANUAL, EV_UPDATE_REQ}
              \<union> {EV_UPDATED, EV_LOGGING_MANUAL}))"
proof -
  have general: "\<And>t s. connections (final (updateObject E h k t s)) (k, targetQueue E h k) =
        Some ((if t = EV_UPDATED_PERIODIC \<or> t = EV_NONE
               then {EV_UPDATED, EV_UPDATED_MANUAL, EV_UPDATE_REQ}
               else {EV_UPDATED_PERIODIC, EV_UPDATED_MANUAL, EV_UPDATE_REQ})
              \<union> (if t = EV_LOGGING_PERIODIC \<or> t = EV_NONE
                 then {EV_UPDATED, EV_LOGGING_MANUAL}
                 else {EV_LOGGING_PERIODIC, EV_LOGGING_MANUAL}))"
    using assms by (simp add: updateObject_connections telemetrySwitch_mask loggingSwitch_mask)
  have dispatch: "connections (final (processObjEvent E h
            \<lparr>obj = k, instId = inst, event = EV_LOGGING_PERIODIC, lowPriority = low\<rparr> s))
          (k, targetQueue E h k) =
        Some ({EV_UPDATED_PERIODIC, EV_UPDATED_MANUAL, EV_UPDATE_REQ}
              \<union> {EV_UPDATED, EV_LOGGING_MANUAL})"
    if kz: "k \<noteq> 0" and kg: "k \<noteq> GCSTelemetryStatsHandle E"
  proof -
    obtain s3 where "processObjEvent E h
        \<lparr>obj = k, instId = inst, event = EV_LOGGING_PERIODIC, lowPriority = low\<rparr> s =
        updateObject E h k EV_LOGGING_PERIODIC s3"
      using processObjEvent_both_throttled
        [of "\<lparr>obj = k, instId = inst, event = EV_LOGGING_PERIODIC, lowPriority = low\<rparr>" E h s]
        assms kz kg by auto
    then show ?thesis using general [of EV_LOGGING_PERIODIC s3] by simp
  qed
  show ?thesis using general [of trigger s] general [of EV_LOGGING_PERIODIC s] dispatch by simp
qed

theorem throttled_modes_share_trigger_witness:
  "connections (final (processObjEvent
       (demoEnv (demoMetadata UPDATEMODE_THROTTLED UPDATEMODE_THROTTLED) (\<lambda>k. 0))
       \<lparr>telemetryPort = 1, mainQueue = 1, priorityQueue = 2, uavTalkCon = 1\<rparr>
       \<lparr>obj = 2, instId = 0, event = EV_LOGGING_PERIODIC, lowPriority = True\<rparr>
       (demoState FLIGHTTELEMETRYSTATS_STATUS_CONNECTED GCSTELEMETRYSTATS_STATUS_CONNECTED)))
     (2, 1) =
     Some {EV_UPDATED_PERIODIC, EV_UPDATED_MANUAL, EV_UPDATE_REQ, EV_UPDATED, EV_LOGGING_MANUAL}"
  using throttled_modes_share_trigger
    [of "demoEnv (demoMetadata UPDATEMODE_THROTTLED UPDATEMODE_THROTTLED) (\<lambda>k. 0)" 2
        "\<lparr>telemetryPort = 1, mainQueue = 1, priorityQueue = 2, uavTalkCon = 1\<rparr>" EV_NONE
        "demoState FLIGHTTELEMETRYSTATS_STATUS_CONNECTED GCSTELEMETRYSTATS_STATUS_CONNECTED"
        0 True]
  by (simp add: demoEnv_def demoMetadata_def targetQueue_def insert_commute)

section \<open>What processObjEvent logs and sends\<close>

lemma sendLoop_logs:
  "filter isLogCall (calls (snd (snd (sendLoop E h ev md retries success s)))) =
     filter isLogCall (calls s)"
proof (induction E h ev md retries success s rule: sendLoop.induct)
  case (1 E h ev md retries success s)
  show ?case
  proof (cases "retries < MAX_RETRIES \<and> success = -1")
    case True
    then show ?thesis
      using "1" [OF True refl]
      by (subst sendLoop.simps) (simp add: Let_def UAVTalkSendObject_def)
  next
    case False
    then show ?thesis by (subst sendLoop.simps) auto
  qed
qed

lemma requestLoop_logs:
  "filter isLogCall (calls (snd (snd (requestLoop E h ev retries success s)))) =
     filter isLogCall (calls s)"
proof (induction E h ev retries success s rule: requestLoop.induct)
  case (1 E h ev retries success s)
  show ?case
  proof (cases "retries < MAX_RETRIES \<and> success = -1")
    case True
    then show ?thesis
      using "1" [OF True refl]
      by (subst requestLoop.simps) (simp add: Let_def UAVTalkSendObjectRequest_def)
  next
    case False
    then show ?thesis by (subst requestLoop.simps) auto
  qed
qed

lemma updateTxStats_calls: "calls (updateTxStats r) = calls (snd (snd r))"
  by (simp add: updateTxStats_def Let_def)

lemma actOnEvent_logs:
  "filter isLogCall (calls (actOnEvent E h ev md s)) = filter isLogCall (calls s)"
  by (simp add: actOnEvent_def Let_def updateTxStats_calls sendLoop_logs requestLoop_logs)

lemma actOnEvent_idle:
  "\<not> (event ev = EV_UPDATED
        \<and> (telemetryUpdateMode md = UPDATEMODE_ONCHANGE
           \<or> telemetryUpdateMode md = UPDATEMODE_THROTTLED)) \<Longrightarrow>
   event ev \<noteq> EV_UPDATED_MANUAL \<Longrightarrow>
   \<not> (event ev = EV_UPDATED_PERIODIC \<and> telemetryUpdateMode md \<noteq> UPDATEMODE_THROTTLED) \<Longrightarrow>
   event ev \<noteq> EV_UPDATE_REQ \<Longrightarrow>
   actOnEvent E h ev md s = s"
  by (auto simp add: actOnEvent_def Let_def)

lemma logEvent_calls:
  "calls (final (logEvent E h ev md s)) =
     calls s @
     (if (event ev = EV_UPDATED
            \<and> (loggingUpdateMode md = UPDATEMODE_ONCHANGE
               \<or> loggingUpdateMode md = UPDATEMODE_THROTTLED))
         \<or> event ev = EV_LOGGING_MANUAL
         \<or> (event ev = EV_LOGGING_PERIODIC \<and> loggingUpdateMode md \<noteq> UPDATEMODE_THROTTLED)
      then (if instId ev = UAVOBJ_ALL_INSTANCES
            then map (\<lambda>i. InstanceWriteToLog (obj ev) (of_nat i))
                   [0..<unat (UAVObjGetNumInstances E (obj ev))]
            else [InstanceWriteToLog (obj ev) (instId ev)])
      else [])"
  by (simp add: logEvent_def Let_def updateObject_calls final_simps logLoop_calls
        UAVObjInstanceWriteToLog_def)


lemma logEvent_protocol:
  "filter isProtocolCall (calls (final (logEvent E h ev md s))) = filter isProtocolCall (calls s)"
  by (simp add: logEvent_calls filter_map comp_def)

lemma processObjEvent_protocol:
  assumes "obj ev \<noteq> 0" and "obj ev \<noteq> GCSTelemetryStatsHandle E"
  shows "filter isProtocolCall (calls (final (processObjEvent E h ev s))) =
         filter isProtocolCall (calls (actOnEvent E h ev (UAVObjGetMetadata E (obj ev)) s))"
proof -
  have k: "\<And>r md. filter isProtocolCall (calls (final (andThen r (logEvent E h ev md)))) =
                   filter isProtocolCall (calls (final r))"
    by (simp add: final_andThen logEvent_protocol final_simps split: sum.splits prod.splits)
  show ?thesis
    by (simp add: processObjEvent_object [OF assms] k final_simps updateObject_calls)
qed

lemma processObjEvent_logs:
  assumes "obj ev \<noteq> 0" and "obj ev \<noteq> GCSTelemetryStatsHandle E"
    and "\<not> (UAVObjIsMetaobject E (obj ev)
            \<and> UAVObjIsMetaobject E (UAVObjGetLinkedObj E (obj ev)))"
  shows "\<exists>s2. filter isLogCall (calls s2) = filter isLogCall (calls s)
           \<and> final (processObjEvent E h ev s) =
               final (logEvent E h ev (UAVObjGetMetadata E (obj ev)) s2)"
proof -
  let ?md = "UAVObjGetMetadata E (obj ev)"
  let ?s1 = "actOnEvent E h ev ?md s"
  let ?x = "if UAVObjIsMetaobject E (obj ev)
        then updateObject E h (UAVObjGetLinkedObj E (obj ev)) EV_NONE ?s1
        else if telemetryUpdateMode ?md = UPDATEMODE_THROTTLED
        then updateObject E h (obj ev) (event ev) ?s1
        else Inr ?s1"
  have "\<exists>s2. ?x = Inr s2"
    using assms(3) by (auto simp add: updateObject_data)
  then obtain s2 where s2: "?x = Inr s2" by blast
  have "calls (final ?x) = calls ?s1"
    by (simp add: updateObject_calls final_simps)
  then have "calls s2 = calls ?s1" using s2 by (simp add: final_simps)
  then have "filter isLogCall (calls s2) = filter isLogCall (calls s)"
    by (simp add: actOnEvent_logs)
  moreover have "processObjEvent E h ev s = logEvent E h ev ?md s2"
    using s2 by (simp add: processObjEvent_object [OF assms(1,2)] andThen_def)
  ultimately show ?thesis by auto
qed

text \<open>
  The logging decision on the object branch. For an event on an object other than the
  GCS statistics object (a meta-object being linked to a data object), the object is
  written to the log exactly when the event is EV_LOGGING_MANUAL, or EV_LOGGING_PERIODIC
  with a logging mode other than THROTTLED, or EV_UPDATED with logging mode ONCHANGE or
  THROTTLED: with the wildcard instance id there is one UAVObjInstanceWriteToLog call per
  instance, in ascending order of the instance index (three calls for three instances),
  with any other instance id one call for that instance; otherwise nothing is written.
\<close>

theorem logging_decision:
  assumes "obj ev \<noteq> 0" and "obj ev \<noteq> GCSTelemetryStatsHandle E"
    and "\<not> (UAVObjIsMetaobject E (obj ev)
            \<and> UAVObjIsMetaobject E (UAVObjGetLinkedObj E (obj ev)))"
  shows "filter isLogCall (calls (final (processObjEvent E h ev s))) =
     filter isLogCall (calls s) @
     (if (event ev = EV_UPDATED
            \<and> (loggingUpdateMode (UAVObjGetMetadata E (obj ev)) = UPDATEMODE_ONCHANGE
               \<or> loggingUpdateMode (UAVObjGetMetadata E (obj ev)) = UPDATEMODE_THROTTLED))
         \<or> event ev = EV_LOGGING_MANUAL
         \<or> (event ev = EV_LOGGING_PERIODIC
            \<and> loggingUpdateMode (UAVObjGetMetadata E (obj ev)) \<noteq> UPDATEMODE_THROTTLED)
      then (if instId ev = UAVOBJ_ALL_INSTANCES
            then map (\<lambda>i. InstanceWriteToLog (obj ev) (of_nat i))
                   [0..<unat (UAVObjGetNumInstances E (obj ev))]
            else [InstanceWriteToLog (obj ev) (instId ev)])
      else [])"
proof -
  obtain s2 where a: "filter isLogCall (calls s2) = filter isLogCall (calls s)"
    and b: "final (processObjEvent E h ev s) =
              final (logEvent E h ev (UAVObjGetMetadata E (obj ev)) s2)"
    using processObjEvent_logs [OF assms, where h = h and s = s] by blast
  show ?thesis
    unfolding b by (simp add: logEvent_calls a filter_map comp_def)
qed

theorem logging_decision_witness:
  "filter isLogCall (calls (final (processObjEvent
       (demoEnv (demoMetadata UPDATEMODE_MANUAL UPDATEMODE_ONCHANGE) (\<lambda>k. 0))
       \<lparr>telemetryPort = 1, mainQueue = 1, priorityQueue = 2, uavTalkCon = 1\<rparr>
       (demoEvent 2 UAVOBJ_ALL_INSTANCES EV_UPDATED)
       (demoState FLIGHTTELEMETRYSTATS_STATUS_CONNECTED GCSTELEMETRYSTATS_STATUS_CONNECTED)))) =
     [InstanceWriteToLog 2 0, InstanceWriteToLog 2 1, InstanceWriteToLog 2 2]"
  using logging_decision
    [of "demoEvent 2 UAVOBJ_ALL_INSTANCES EV_UPDATED"
        "demoEnv (demoMetadata UPDATEMODE_MANUAL UPDATEMODE_ONCHANGE) (\<lambda>k. 0)"
        "\<lparr>telemetryPort = 1, mainQueue = 1, priorityQueue = 2, uavTalkCon = 1\<rparr>"
        "demoState FLIGHTTELEMETRYSTATS_STATUS_CONNECTED GCSTELEMETRYSTATS_STATUS_CONNECTED"]
  by (simp add: demoEnv_def demoState_def demoEvent_def demoMetadata_def upt_conv_Cons)

text \<open>
  C5. processObjEvent should write an event's object to the log exactly when the event
  kind and the logging mode of the object say so. For an event of the GCS statistics
  object it does not: that branch calls gcsTelemetryStatsUpdated and never reads the
  metadata of the object, and the logging step then takes the logging mode from the local
  variable \<open>metadata\<close> as it was left. For the GCS statistics object (object 1) with
  logging mode MANUAL and a local that reads ONCHANGE, an EV_UPDATED event is written to
  the log; with logging mode ONCHANGE and a local that reads MANUAL, it is not.
\<close>

theorem gcs_event_logged_from_unassigned_metadata:
  "GCSTelemetryStatsHandle (demoEnv (demoMetadata UPDATEMODE_MANUAL UPDATEMODE_MANUAL) (\<lambda>k. 0)) = 1
   \<and> loggingUpdateMode (UAVObjGetMetadata
        (demoEnv (demoMetadata UPDATEMODE_MANUAL UPDATEMODE_MANUAL) (\<lambda>k. 0)) 1) = UPDATEMODE_MANUAL
   \<and> filter isLogCall (calls (final (processObjEvent
        ((demoEnv (demoMetadata UPDATEMODE_MANUAL UPDATEMODE_MANUAL) (\<lambda>k. 0))
           \<lparr>uninitialisedMetadata := demoMetadata UPDATEMODE_MANUAL UPDATEMODE_ONCHANGE\<rparr>)
        \<lparr>telemetryPort = 1, mainQueue = 1, priorityQueue = 2, uavTalkCon = 1\<rparr>
        (demoEvent 1 0 EV_UPDATED)
        (demoState FLIGHTTELEMETRYSTATS_STATUS_CONNECTED GCSTELEMETRYSTATS_STATUS_CONNECTED))))
       = [InstanceWriteToLog 1 0]
   \<and> loggingUpdateMode (UAVObjGetMetadata
        (demoEnv (demoMetadata UPDATEMODE_MANUAL UPDATEMODE_ONCHANGE) (\<lambda>k. 0)) 1) = UPDATEMODE_ONCHANGE
   \<and> filter isLogCall (calls (final (processObjEvent
        (demoEnv (demoMetadata UPDATEMODE_MANUAL UPDATEMODE_ONCHANGE) (\<lambda>k. 0))
        \<lparr>telemetryPort = 1, mainQueue = 1, priorityQueue = 2, uavTalkCon = 1\<rparr>
        (demoEvent 1 0 EV_UPDATED)
        (demoState FLIGHTTELEMETRYSTATS_STATUS_CONNECTED GCSTELEMETRYSTATS_STATUS_CONNECTED))))
       = []"
proof -
  have connected: "\<And>E. gcsTelemetryStatsUpdated E
      (demoState FLIGHTTELEMETRYSTATS_STATUS_CONNECTED GCSTELEMETRYSTATS_STATUS_CONNECTED)
      = demoState FLIGHTTELEMETRYSTATS_STATUS_CONNECTED GCSTELEMETRYSTATS_STATUS_CONNECTED"
    by (simp add: gcsTelemetryStatsUpdated_def demoState_def demoFlightStats_def)
  show ?thesis
    by (simp add: processObjEvent_stats connected logEvent_calls demoEnv_def demoEvent_def
          demoMetadata_def UAVOBJ_ALL_INSTANCES_def)
       (simp add: demoState_def)
qed

lemma updateTelemetryStats_resets:
  "txErrors (updateTelemetryStats E s) = 0"
  "txRetries (updateTelemetryStats E s) = 0"
  "attempts (updateTelemetryStats E s) = attempts s"
  by (simp_all add: updateTelemetryStats_def Let_def collectStats_fields)

lemma updateTelemetryStats_protocol:
  "filter isProtocolCall (calls (updateTelemetryStats E s)) = filter isProtocolCall (calls s)"
  by (simp add: updateTelemetryStats_calls)

lemma gcsTelemetryStatsUpdated_protocol:
  "filter isProtocolCall (calls (gcsTelemetryStatsUpdated E s)) = filter isProtocolCall (calls s)"
  "attempts (gcsTelemetryStatsUpdated E s) = attempts s"
  by (simp_all add: gcsTelemetryStatsUpdated_def updateTelemetryStats_protocol
        updateTelemetryStats_resets)

lemma processObjEvent_no_protocol:
  assumes "obj ev = 0 \<or> obj ev = GCSTelemetryStatsHandle E"
  shows "filter isProtocolCall (calls (final (processObjEvent E h ev s))) =
           filter isProtocolCall (calls s)
    \<and> attempts (final (processObjEvent E h ev s)) = attempts s"
proof (cases "obj ev = 0")
  case True
  then show ?thesis
    by (simp add: processObjEvent_null final_simps updateTelemetryStats_protocol
          updateTelemetryStats_resets)
next
  case False
  then have g: "obj ev = GCSTelemetryStatsHandle E" using assms by simp
  have "counters (final (processObjEvent E h ev s)) = counters (gcsTelemetryStatsUpdated E s)"
    by (simp add: processObjEvent_stats [OF False g] logEvent_counters)
  then have "attempts (final (processObjEvent E h ev s)) = attempts s"
    by (simp add: counters_def gcsTelemetryStatsUpdated_protocol)
  then show ?thesis
    by (simp add: processObjEvent_stats [OF False g] logEvent_protocol
          gcsTelemetryStatsUpdated_protocol)
qed

text \<open>
  C10 (as amended). An event whose kind triggers neither a send nor a request makes
  processObjEvent issue no UAVTalk send or request call, whatever its object. When the
  object is neither the statistics sentinel nor the GCS statistics object, the counters
  txErrors and txRetries are left as they were. For the statistics sentinel both
  counters are reset to zero: its event runs updateTelemetryStats, which zeroes them
  (after adding them to the statistics record while CONNECTED).
\<close>

theorem no_action_frame:
  assumes "\<not> (event ev = EV_UPDATED
            \<and> (telemetryUpdateMode (UAVObjGetMetadata E (obj ev)) = UPDATEMODE_ONCHANGE
               \<or> telemetryUpdateMode (UAVObjGetMetadata E (obj ev)) = UPDATEMODE_THROTTLED))"
    and "event ev \<noteq> EV_UPDATED_MANUAL"
    and "\<not> (event ev = EV_UPDATED_PERIODIC
            \<and> telemetryUpdateMode (UAVObjGetMetadata E (obj ev)) \<noteq> UPDATEMODE_THROTTLED)"
    and "event ev \<noteq> EV_UPDATE_REQ"
  shows "filter isProtocolCall (calls (final (processObjEvent E h ev s))) =
           filter isProtocolCall (calls s)
    \<and> attempts (final (processObjEvent E h ev s)) = attempts s
    \<and> (obj ev \<noteq> 0 \<and> obj ev \<noteq> GCSTelemetryStatsHandle E \<longrightarrow>
         txErrors (final (processObjEvent E h ev s)) = txErrors s
         \<and> txRetries (final (processObjEvent E h ev s)) = txRetries s)
    \<and> (obj ev = 0 \<longrightarrow>
         txErrors (final (processObjEvent E h ev s)) = 0
         \<and> txRetries (final (processObjEvent E h ev s)) = 0)"
proof (cases "obj ev = 0 \<or> obj ev = GCSTelemetryStatsHandle E")
  case True
  then show ?thesis
    using processObjEvent_no_protocol [OF True, of h s]
    by (auto simp add: processObjEvent_null final_simps updateTelemetryStats_resets)
next
  case False
  then have object: "obj ev \<noteq> 0" "obj ev \<noteq> GCSTelemetryStatsHandle E" by simp_all
  have idle: "actOnEvent E h ev (UAVObjGetMetadata E (obj ev)) s = s"
    using assms by (rule actOnEvent_idle)
  have "counters (final (processObjEvent E h ev s)) = counters s"
    using processObjEvent_counters [OF object, of h s] idle by simp
  moreover have "filter isProtocolCall (calls (final (processObjEvent E h ev s))) =
      filter isProtocolCall (calls s)"
    using processObjEvent_protocol [OF object, of h s] idle by simp
  ultimately show ?thesis using object by (simp add: counters_def)
qed

theorem no_action_frame_witness:
  "filter isProtocolCall (calls (final (processObjEvent
       (demoEnv (demoMetadata UPDATEMODE_THROTTLED UPDATEMODE_PERIODIC) (\<lambda>k. - 1))
       \<lparr>telemetryPort = 1, mainQueue = 1, priorityQueue = 2, uavTalkCon = 1\<rparr>
       (demoEvent 2 UAVOBJ_ALL_INSTANCES EV_UPDATED_PERIODIC)
       (demoState FLIGHTTELEMETRYSTATS_STATUS_CONNECTED GCSTELEMETRYSTATS_STATUS_CONNECTED
          \<lparr>txErrors := 5, txRetries := 3\<rparr>)))) = []
   \<and> txErrors (final (processObjEvent
       (demoEnv (demoMetadata UPDATEMODE_THROTTLED UPDATEMODE_PERIODIC) (\<lambda>k. - 1))
       \<lparr>telemetryPort = 1, mainQueue = 1, priorityQueue = 2, uavTalkCon = 1\<rparr>
       (demoEvent 2 UAVOBJ_ALL_INSTANCES EV_UPDATED_PERIODIC)
       (demoState FLIGHTTELEMETRYSTATS_STATUS_CONNECTED GCSTELEMETRYSTATS_STATUS_CONNECTED
          \<lparr>txErrors := 5, txRetries := 3\<rparr>))) = 5
   \<and> txRetries (final (processObjEvent
       (demoEnv (demoMetadata UPDATEMODE_THROTTLED UPDATEMODE_PERIODIC) (\<lambda>k. - 1))
       \<lparr>telemetryPort = 1, mainQueue = 1, priorityQueue = 2, uavTalkCon = 1\<rparr>
       (demoEvent 2 UAVOBJ_ALL_INSTANCES EV_UPDATED_PERIODIC)
       (demoState FLIGHTTELEMETRYSTATS_STATUS_CONNECTED GCSTELEMETRYSTATS_STATUS_CONNECTED
          \<lparr>txErrors := 5, txRetries := 3\<rparr>))) = 3"
  using no_action_frame
    [of "demoEvent 2 UAVOBJ_ALL_INSTANCES EV_UPDATED_PERIODIC"
        "demoEnv (demoMetadata UPDATEMODE_THROTTLED UPDATEMODE_PERIODIC) (\<lambda>k. - 1)"
        "\<lparr>telemetryPort = 1, mainQueue = 1, priorityQueue = 2, uavTalkCon = 1\<rparr>"
        "demoState FLIGHTTELEMETRYSTATS_STATUS_CONNECTED GCSTELEMETRYSTATS_STATUS_CONNECTED
           \<lparr>txErrors := 5, txRetries := 3\<rparr>"]
  by (simp add: demoEnv_def demoState_def demoEvent_def demoMetadata_def)

text \<open>
  The claim as stated fails for the statistics sentinel: its event kind triggers neither
  a send nor a request, and the counters do not stay as they were.
\<close>

theorem statistics_event_counterexample:
  "event statsEvent = EV_NONE
   \<and> txErrors (demoState FLIGHTTELEMETRYSTATS_STATUS_CONNECTED GCSTELEMETRYSTATS_STATUS_CONNECTED
        \<lparr>txErrors := 5, txRetries := 3\<rparr>) = 5
   \<and> txErrors (final (processObjEvent
       (demoEnv (demoMetadata UPDATEMODE_THROTTLED UPDATEMODE_PERIODIC) (\<lambda>k. - 1))
       \<lparr>telemetryPort = 1, mainQueue = 1, priorityQueue = 2, uavTalkCon = 1\<rparr>
       statsEvent
       (demoState FLIGHTTELEMETRYSTATS_STATUS_CONNECTED GCSTELEMETRYSTATS_STATUS_CONNECTED
          \<lparr>txErrors := 5, txRetries := 3\<rparr>))) = 0
   \<and> txRetries (final (processObjEvent
       (demoEnv (demoMetadata UPDATEMODE_THROTTLED UPDATEMODE_PERIODIC) (\<lambda>k. - 1))
       \<lparr>telemetryPort = 1, mainQueue = 1, priorityQueue = 2, uavTalkCon = 1\<rparr>
       statsEvent
       (demoState FLIGHTTELEMETRYSTATS_STATUS_CONNECTED GCSTELEMETRYSTATS_STATUS_CONNECTED
          \<lparr>txErrors := 5, txRetries := 3\<rparr>))) = 0"
  by (simp add: processObjEvent_def statsEvent_def final_def updateTelemetryStats_def
        collectStats_def UAVTalkGetStats_def UAVTalkAddStats_def Let_def demoState_def)

section \<open>Meta-objects and the scheduler\<close>

lemma register_runs:
  "\<exists>s'. registerTelemObject E k s = Inr s'"
  "\<exists>s'. registerRadioObject E k s = Inr s'"
  by (simp_all add: registerTelemObject_def registerRadioObject_def updateObject_data)

lemma UAVObjIterate_runs:
  assumes "\<And>k s. \<exists>s'. f k s = Inr s'"
  shows "\<exists>s'. UAVObjIterate f ks s = Inr s'"
proof (induction ks arbitrary: s)
  case Nil
  show ?case by simp
next
  case (Cons k ks)
  obtain s1 where "f k s = Inr s1" using assms by blast
  then show ?case using Cons [of s1] by (simp add: andThen_def)
qed

lemma TelemetryStart_runs: "\<exists>s'. TelemetryStart E s = Inr s'"
proof -
  obtain s1 where s1: "UAVObjIterate (registerTelemObject E) (UAVObjects E) s = Inr s1"
    using UAVObjIterate_runs [of "registerTelemObject E"] register_runs(1) by blast
  obtain s2 where s2: "UAVObjIterate (registerRadioObject E) (UAVObjects E) s1 = Inr s2"
    using UAVObjIterate_runs [of "registerRadioObject E"] register_runs(2) by blast
  show ?thesis by (simp add: TelemetryStart_def andThen_def s1 s2)
qed

lemma logEvent_runs:
  "\<not> (UAVObjIsMetaobject E (obj ev) \<and> loggingUpdateMode md = UPDATEMODE_THROTTLED) \<Longrightarrow>
   \<exists>s'. logEvent E h ev md s = Inr s'"
  by (auto simp add: logEvent_def Let_def updateObject_data)

lemma processObjEvent_runs:
  assumes wf: "\<forall>k. UAVObjIsMetaobject E k \<longrightarrow>
                 \<not> UAVObjIsMetaobject E (UAVObjGetLinkedObj E k)
                 \<and> loggingUpdateMode (UAVObjGetMetadata E k) \<noteq> UPDATEMODE_THROTTLED"
    and gcs: "\<not> UAVObjIsMetaobject E (GCSTelemetryStatsHandle E)"
  shows "\<exists>s'. processObjEvent E h ev s = Inr s'"
proof -
  consider (null) "obj ev = 0"
    | (stats) "obj ev \<noteq> 0" "obj ev = GCSTelemetryStatsHandle E"
    | (object) "obj ev \<noteq> 0" "obj ev \<noteq> GCSTelemetryStatsHandle E"
    by blast
  then show ?thesis
  proof cases
    case null
    then show ?thesis by (simp add: processObjEvent_def)
  next
    case stats
    then show ?thesis
      using gcs logEvent_runs [of E ev "uninitialisedMetadata E" h "gcsTelemetryStatsUpdated E s"]
      by (simp add: processObjEvent_def)
  next
    case object
    let ?md = "UAVObjGetMetadata E (obj ev)"
    let ?s1 = "actOnEvent E h ev ?md s"
    let ?x = "if UAVObjIsMetaobject E (obj ev)
        then updateObject E h (UAVObjGetLinkedObj E (obj ev)) EV_NONE ?s1
        else if telemetryUpdateMode ?md = UPDATEMODE_THROTTLED
        then updateObject E h (obj ev) (event ev) ?s1
        else Inr ?s1"
    have "\<exists>s2. ?x = Inr s2"
      using wf by (auto simp add: updateObject_data)
    then obtain s2 where s2: "?x = Inr s2" by blast
    have "\<exists>s'. logEvent E h ev ?md s2 = Inr s'"
      using wf by (intro logEvent_runs) auto
    then show ?thesis
      using s2 by (simp add: processObjEvent_object [OF object] andThen_def)
  qed
qed

lemma process_not_halted:
  assumes "\<exists>s'. processObjEvent E h ev (st r) = Inr s'"
  shows "halted (process E h ev r) = halted r"
  using assms by (auto simp add: process_def)

lemma txLoop_not_halted:
  assumes run: "\<And>h ev s. \<exists>s'. processObjEvent E h ev s = Inr s'"
  shows "\<not> halted r \<Longrightarrow> \<not> halted (txLoop E h l xs r)"
proof (induction xs arbitrary: l r)
  case Nil
  then show ?case by simp
next
  case (Cons x xs)
  have step: "\<And>q n y ev. \<not> halted (process E h ev (received q n y r))"
    using Cons.prems process_not_halted [OF run] by (simp add: received_def)
  have recv: "\<And>q n y. \<not> halted (received q n y r)"
    using Cons.prems by (simp add: received_def)
  show ?case
    by (cases l; cases x) (simp_all add: Cons.prems Cons.IH step recv)
qed

text \<open>
  updateObject halts on a meta-object (PIOS_Assert(false)) in the state it was called in,
  so with no effect on subscriptions or timers, and runs to its end on every other
  object. It is the only place where the model halts. In a registry in which a
  meta-object is linked to a data object and has a logging mode other than THROTTLED, and
  in which the GCS statistics object is a data object, neither start-up nor any call of
  processObjEvent nor any run of the transmit task halts. For the event of a
  meta-object, processObjEvent re-runs the scheduler on the linked object, with trigger
  EV_NONE.
\<close>

theorem metaobject_never_scheduled:
  assumes wf: "\<forall>k. UAVObjIsMetaobject E k \<longrightarrow>
                 \<not> UAVObjIsMetaobject E (UAVObjGetLinkedObj E k)
                 \<and> loggingUpdateMode (UAVObjGetMetadata E k) \<noteq> UPDATEMODE_THROTTLED"
    and gcs: "\<not> UAVObjIsMetaobject E (GCSTelemetryStatsHandle E)"
  shows "(UAVObjIsMetaobject E k \<longrightarrow> updateObject E h k trigger s = Inl (PIOS_Assert_failed, s))
    \<and> (\<not> UAVObjIsMetaobject E k \<longrightarrow> (\<exists>s'. updateObject E h k trigger s = Inr s'))
    \<and> (\<exists>s'. TelemetryStart E s = Inr s')
    \<and> (\<exists>s'. processObjEvent E h ev s = Inr s')
    \<and> \<not> halted (telemetryTxTask E parameters script s)
    \<and> (obj ev \<noteq> 0 \<and> obj ev \<noteq> GCSTelemetryStatsHandle E \<and> UAVObjIsMetaobject E (obj ev) \<longrightarrow>
        processObjEvent E h ev s =
          andThen (updateObject E h (UAVObjGetLinkedObj E (obj ev)) EV_NONE
                     (actOnEvent E h ev (UAVObjGetMetadata E (obj ev)) s))
                  (logEvent E h ev (UAVObjGetMetadata E (obj ev))))"
proof -
  have run: "\<And>h ev s. \<exists>s'. processObjEvent E h ev s = Inr s'"
    using processObjEvent_runs [OF wf gcs] by blast
  have task: "\<not> halted (telemetryTxTask E parameters script s)"
    by (cases parameters) (simp_all add: telemetryTxTask_def txLoop_not_halted [OF run])
  have meta: "obj ev \<noteq> 0 \<and> obj ev \<noteq> GCSTelemetryStatsHandle E \<and> UAVObjIsMetaobject E (obj ev) \<longrightarrow>
        processObjEvent E h ev s =
          andThen (updateObject E h (UAVObjGetLinkedObj E (obj ev)) EV_NONE
                     (actOnEvent E h ev (UAVObjGetMetadata E (obj ev)) s))
                  (logEvent E h ev (UAVObjGetMetadata E (obj ev)))"
    by (simp add: processObjEvent_object)
  show ?thesis
    using run [of h ev s] task meta TelemetryStart_runs [of E s]
    by (simp add: updateObject_meta updateObject_data)
qed

theorem metaobject_never_scheduled_witness:
  "updateObject (demoEnv (demoMetadata UPDATEMODE_THROTTLED UPDATEMODE_THROTTLED) (\<lambda>k. 0))
       \<lparr>telemetryPort = 1, mainQueue = 1, priorityQueue = 2, uavTalkCon = 1\<rparr> 3 EV_UPDATED
       (demoState FLIGHTTELEMETRYSTATS_STATUS_CONNECTED GCSTELEMETRYSTATS_STATUS_CONNECTED)
     = Inl (PIOS_Assert_failed,
         demoState FLIGHTTELEMETRYSTATS_STATUS_CONNECTED GCSTELEMETRYSTATS_STATUS_CONNECTED)
   \<and> \<not> halted (telemetryTxTask
        (demoEnv (demoMetadata UPDATEMODE_THROTTLED UPDATEMODE_THROTTLED) (\<lambda>k. 0))
        (Some \<lparr>telemetryPort = 1, mainQueue = 1, priorityQueue = 2, uavTalkCon = 1\<rparr>)
        [Some (demoEvent 3 0 EV_UPDATED), Some (demoEvent 2 0 EV_UPDATED), None]
        (demoState FLIGHTTELEMETRYSTATS_STATUS_CONNECTED GCSTELEMETRYSTATS_STATUS_CONNECTED))"
  using metaobject_never_scheduled
    [of "demoEnv (demoMetadata UPDATEMODE_THROTTLED UPDATEMODE_THROTTLED) (\<lambda>k. 0)" 3
        "\<lparr>telemetryPort = 1, mainQueue = 1, priorityQueue = 2, uavTalkCon = 1\<rparr>" EV_UPDATED
        "demoState FLIGHTTELEMETRYSTATS_STATUS_CONNECTED GCSTELEMETRYSTATS_STATUS_CONNECTED"
        "demoEvent 3 0 EV_UPDATED"
        "Some \<lparr>telemetryPort = 1, mainQueue = 1, priorityQueue = 2, uavTalkCon = 1\<rparr>"
        "[Some (demoEvent 3 0 EV_UPDATED), Some (demoEvent 2 0 EV_UPDATED), None]"]
  by (simp add: demoEnv_def demoMetadata_def)



section \<open>The transmit loop\<close>




lemma halted_received: "halted (received q t x r) = halted r"
  by (simp add: received_def)













section \<open>Who drives the connection state machine\<close>






end
